theory Spec2Isabelle
  imports Complex_Main
begin

section \<open>Shared vocabulary of the two example scripts\<close>

text \<open>
  The repository holds two scripts, \<^verbatim>\<open>scripts/ex-gwt-mt3dms-p01.py\<close> and
  \<^verbatim>\<open>scripts/ex-gwt-mt3dms-p02.py\<close>. Both build simulation descriptions through the
  flopy library, write them, run the external solvers and plot the results. Names of the
  first script carry the suffix \<open>_p01\<close>, names of the second the suffix \<open>_p02\<close>, because
  the scripts reuse each other's identifiers.

  Conventions of the embedding.
  \<^item> Python floats and ints that hold physical quantities are read as \<open>real\<close>; every
    theorem below is about which expression is stored where, and the concrete values that
    occur (0, 1, 0.25, 0.05, ...) are evaluated exactly.
  \<^item> A path is the list of the arguments handed to \<^verbatim>\<open>os.path.join\<close>.
  \<^item> The module \<^verbatim>\<open>config\<close> is not part of the sources; its attributes that the
    scripts read are the fields of the record \<open>config\<close>, a parameter of every function.
    The decorator \<^verbatim>\<open>config.timeit\<close> is taken to return the decorated function's value.
  \<^item> Constructors of flopy objects are taken to return normally; a description is the
    record of the arguments the script passes. Packages that receive no argument, or only
    solver tolerances and print formats, are recorded by name in a package list.
  \<^item> What the script does to the outside (writing input files, running a solver, printing,
    drawing) is an event appended to a trace; what the outside answers (the outcome of a
    solver run, the arrays read back) is a field of a \<open>world\<close> record.
\<close>

record config =
  buildModel :: bool
  writeModel :: bool
  runModel :: bool
  plotModel :: bool
  plotSave :: bool
  base_ws :: string
  mf6_exe :: string
  mf2005_exe :: string
  mt3dms_exe :: string
  figure_ext :: string

datatype error =
    Exception | TypeError | UnboundLocalError | IndexError | KeyError | ValueError
  | FileNotFoundError

type_synonym path = "string list"

type_synonym 'a array3 = "'a list list list"

definition full3 :: "nat \<Rightarrow> nat \<Rightarrow> nat \<Rightarrow> 'a \<Rightarrow> 'a array3" where
  \<comment> \<open>\<^verbatim>\<open>np.ones((nl, nr, nc))\<close> and \<^verbatim>\<open>np.zeros((nl, nr, nc))\<close>\<close>
  "full3 nl nr nc x = replicate nl (replicate nr (replicate nc x))"

definition set3 :: "'a array3 \<Rightarrow> nat \<Rightarrow> nat \<Rightarrow> int \<Rightarrow> 'a \<Rightarrow> 'a array3" where
  \<comment> \<open>\<^verbatim>\<open>a[i, j, k] = x\<close>; a negative \<open>k\<close> counts from the end of the row. The scripts
      only assign inside the array.\<close>
  "set3 a i j k x =
     (let row = a ! i ! j;
          k' = (if k < 0 then int (length row) + k else k)
      in a[i := (a ! i)[j := row[nat k' := x]]])"

text \<open>The events of a run, over the type \<open>'m\<close> of the simulation objects of a script.\<close>

datatype 'm event =
    Write 'm
  | Run 'm
  | Print string
  | New_figure
  | Plot string "real list" "real list"
  | Set_ylim real real
  | Set_xlim real real
  | Set_xlabel string
  | Set_ylabel string
  | Legend
  | Heading string string
  | Savefig path

fun is_plot_event :: "'m event \<Rightarrow> bool" where
  "is_plot_event (Write _) = False"
| "is_plot_event (Run _) = False"
| "is_plot_event (Print _) = False"
| "is_plot_event _ = True"

fun is_write :: "'m event \<Rightarrow> bool" where
  "is_write (Write _) = True"
| "is_write _ = False"

fun is_run :: "'m event \<Rightarrow> bool" where
  "is_run (Run _) = True"
| "is_run _ = False"

definition py_index :: "'a list \<Rightarrow> int \<Rightarrow> error + 'a" where
  \<comment> \<open>\<^verbatim>\<open>xs[i]\<close> on a Python list of length \<open>n\<close>: positions \<open>0 .. n - 1\<close>, or
      \<open>- n .. - 1\<close> counted from the end\<close>
  "py_index xs i =
     (if 0 \<le> i \<and> i < int (length xs) then Inr (xs ! nat i)
      else if - int (length xs) \<le> i \<and> i < 0 then Inr (xs ! nat (int (length xs) + i))
      else Inl IndexError)"


section \<open>Problem 1: one-dimensional transport in a uniform flow field\<close>

subsection \<open>Scenario table and module constants\<close>

record params_p01 =
  dispersivity :: real
  retardation :: real
  decay :: real

definition parameters_p01 :: "(string \<times> params_p01) list" where
  "parameters_p01 =
     [(''ex-gwt-mt3dms-p01a'', \<lparr>dispersivity = 0.0, retardation = 1.0, decay = 0.0\<rparr>),
      (''ex-gwt-mt3dms-p01b'', \<lparr>dispersivity = 10.0, retardation = 1.0, decay = 0.0\<rparr>),
      (''ex-gwt-mt3dms-p01c'', \<lparr>dispersivity = 10.0, retardation = 5.0, decay = 0.0\<rparr>),
      (''ex-gwt-mt3dms-p01d'', \<lparr>dispersivity = 10.0, retardation = 5.0, decay = 0.002\<rparr>)]"

named_theorems p01_consts \<open>values of the module constants of problem 1\<close>

definition length_units_p01 :: string where
  [p01_consts]: "length_units_p01 = ''meters''"

definition time_units_p01 :: string where
  [p01_consts]: "time_units_p01 = ''days''"

definition nper_p01 :: nat where
  [p01_consts]: "nper_p01 = 1"

definition nlay_p01 :: nat where
  [p01_consts]: "nlay_p01 = 1"

definition ncol_p01 :: nat where
  [p01_consts]: "ncol_p01 = 101"

definition nrow_p01 :: nat where
  [p01_consts]: "nrow_p01 = 1"

definition delr_p01 :: real where
  [p01_consts]: "delr_p01 = 10.0"

definition delc_p01 :: real where
  [p01_consts]: "delc_p01 = 1.0"

definition top_p01 :: real where
  [p01_consts]: "top_p01 = 0.0"

definition botm_p01 :: real where
  [p01_consts]: "botm_p01 = - 1.0"

definition prsity_p01 :: real where
  [p01_consts]: "prsity_p01 = 0.25"

definition perlen_p01 :: real where
  [p01_consts]: "perlen_p01 = 2000"

definition k11_p01 :: real where
  [p01_consts]: "k11_p01 = 1.0"

definition k33_p01 :: real where
  [p01_consts]: "k33_p01 = k11_p01"

definition laytyp_p01 :: int where
  [p01_consts]: "laytyp_p01 = 1"

definition nstp_p01 :: real where
  [p01_consts]: "nstp_p01 = 100.0"

definition dt0_p01 :: real where
  [p01_consts]: "dt0_p01 = perlen_p01 / nstp_p01"

definition Lx_p01 :: real where
  [p01_consts]: "Lx_p01 = (real ncol_p01 - 1) * delr_p01"

definition v_p01 :: real where
  [p01_consts]: "v_p01 = 0.24"

definition q_p01 :: real where
  [p01_consts]: "q_p01 = v_p01 * prsity_p01"

definition h1_p01 :: real where
  [p01_consts]: "h1_p01 = q_p01 * Lx_p01"

definition strt_p01 :: "real array3" where
  "strt_p01 = set3 (full3 nlay_p01 nrow_p01 ncol_p01 0) 0 0 0 h1_p01"

definition l_p01 :: real where
  [p01_consts]: "l_p01 = 1000.0"

definition icelltype_p01 :: int where
  [p01_consts]: "icelltype_p01 = 1"

definition ibound_p01 :: "int array3" where
  "ibound_p01 = set3 (set3 (full3 nlay_p01 nrow_p01 ncol_p01 1) 0 0 0 (- 1)) 0 0 (- 1) (- 1)"

definition rhob_p01 :: real where
  [p01_consts]: "rhob_p01 = 0.25"

definition dceps_p01 :: real where
  [p01_consts]: "dceps_p01 = 0.00001"

definition nplane_p01 :: int where
  [p01_consts]: "nplane_p01 = 1"

definition npl_p01 :: int where
  [p01_consts]: "npl_p01 = 0"

definition nph_p01 :: int where
  [p01_consts]: "nph_p01 = 4"

definition npmin_p01 :: int where
  [p01_consts]: "npmin_p01 = 0"

definition npmax_p01 :: int where
  [p01_consts]: "npmax_p01 = 8"

definition nlsink_p01 :: int where
  [p01_consts]: "nlsink_p01 = nplane_p01"

definition npsink_p01 :: int where
  [p01_consts]: "npsink_p01 = nph_p01"

definition tdis_rc_p01 :: "(real \<times> real \<times> real) list" where
  [p01_consts]: "tdis_rc_p01 = [] @ [(perlen_p01, nstp_p01, 1.0)]"

definition chdspd_p01 :: "((nat \<times> nat \<times> nat) \<times> real) list" where
  [p01_consts]: "chdspd_p01 = [((0, 0, 0), h1_p01), ((0, 0, ncol_p01 - 1), 0.0)]"

definition c0_p01 :: real where
  [p01_consts]: "c0_p01 = 1.0"

definition cncspd_p01 :: "((nat \<times> nat \<times> nat) \<times> real) list" where
  [p01_consts]: "cncspd_p01 = [((0, 0, 0), c0_p01)]"


subsection \<open>Simulation descriptions\<close>

text \<open>
  One record per flopy package that receives scenario data, grouped into the three
  objects \<^verbatim>\<open>build_model\<close> returns: the MODFLOW-2005 model \<^verbatim>\<open>mf\<close>, the MT3DMS model
  \<^verbatim>\<open>mt\<close> and the MODFLOW 6 simulation \<^verbatim>\<open>sim\<close> with its flow and transport models.
\<close>

record grid =
  nlay :: nat
  nrow :: nat
  ncol :: nat
  delr :: real
  delc :: real
  top_elev :: real
  botm :: real

record ModflowDis_p01 = grid +
  nstp :: real
  perlen :: real
  itmuni :: nat
  lenuni :: nat

record Modflow_p01 =
  mf_modelname :: string
  mf_model_ws :: path
  mf_exe_name :: string
  mf_dis :: ModflowDis_p01
  bas_ibound :: "int array3"
  bas_strt :: "real array3"
  lpf_hk :: real
  lpf_laytyp :: int
  mf_packages :: "string list"

record Mt3dBtn_p01 =
  laycon :: int
  icbund :: "int array3"
  btn_prsity :: real
  btn_sconc :: "real array3"
  btn_dt0 :: real
  ifmtcn :: int

record Mt3dAdv_p01 =
  adv_mixelm :: int
  adv_dceps :: real
  adv_nplane :: int
  adv_npl :: int
  adv_nph :: int
  adv_npmin :: int
  adv_npmax :: int
  adv_nlsink :: int
  adv_npsink :: int
  adv_percel :: real

record Mt3dRct_p01 =
  isothm :: real
  ireact :: real
  igetsc :: int
  rct_rhob :: real
  sp1 :: real
  rc1 :: real
  rc2 :: real

record Mt3dms_p01 =
  mt_modelname :: string
  mt_model_ws :: path
  mt_exe_name :: string
  mt_modflowmodel :: Modflow_p01
  mt_btn :: Mt3dBtn_p01
  mt_adv :: Mt3dAdv_p01
  dsp_al :: real
  mt_rct :: Mt3dRct_p01
  mt_packages :: "string list"

record ModflowGwf_p01 =
  gwf_modelname :: string
  gwf_save_flows :: bool
  gwf_length_units :: string
  gwf_dis :: grid
  gwf_idomain :: "int array3"
  npf_icelltype :: int
  npf_k :: real
  npf_k33 :: real
  ic_strt :: "real array3"
  chd_maxbound :: nat
  chd_stress_period_data :: "((nat \<times> nat \<times> nat) \<times> real) list"
  gwf_saverecord :: "(string \<times> string) list"

record ModflowGwtmst_p01 =
  mst_porosity :: real
  sorption :: "string option"
  bulk_density :: real
  distcoef :: real
  first_order_decay :: bool
  mst_decay :: real
  decay_sorbed :: real

record ModflowGwt_p01 =
  gwt_modelname :: string
  gwt_save_flows :: bool
  gwt_dis :: grid
  gwt_idomain :: int
  gwt_strt :: "real array3"
  adv_scheme :: string
  gwt_dsp :: "(real \<times> real) option"
  gwt_mst :: ModflowGwtmst_p01
  cnc_maxbound :: nat
  cnc_stress_period_data :: "((nat \<times> nat \<times> nat) \<times> real) list"
  ssm_sources :: "string list list"
  gwt_saverecord :: "(string \<times> string) list"

record MFSimulation_p01 =
  sim_name :: string
  sim_ws :: path
  sim_exe_name :: string
  tdis_nper :: nat
  tdis_perioddata :: "(real \<times> real \<times> real) list"
  tdis_time_units :: string
  sim_gwf :: ModflowGwf_p01
  sim_gwt :: ModflowGwt_p01
  exchange :: "string \<times> string \<times> string"
  sim_packages :: "string list"

subsection \<open>\<^verbatim>\<open>build_model\<close>\<close>

definition build_mf_p01 :: "config \<Rightarrow> string \<Rightarrow> Modflow_p01" where
  \<comment> \<open>the MODFLOW-2005 part of \<^verbatim>\<open>build_model\<close>: the model and its packages\<close>
  "build_mf_p01 cfg name =
     \<lparr>mf_modelname = ''p01-mf'',
      mf_model_ws = [base_ws cfg, name, ''mt3d''],
      mf_exe_name = mf2005_exe cfg,
      mf_dis = \<lparr>nlay = nlay_p01, nrow = nrow_p01, ncol = ncol_p01, delr = delr_p01,
        delc = delc_p01, top_elev = top_p01, botm = botm_p01, nstp = nstp_p01,
        perlen = perlen_p01, itmuni = 4, lenuni = 2\<rparr>,
      bas_ibound = ibound_p01,
      bas_strt = strt_p01,
      lpf_hk = k11_p01,
      lpf_laytyp = laytyp_p01,
      mf_packages = [''DIS'', ''BAS6'', ''LPF'', ''PCG'', ''LMT'']\<rparr>"

definition build_mt_p01 ::
  "config \<Rightarrow> string \<Rightarrow> Modflow_p01 \<Rightarrow> real \<Rightarrow> real \<Rightarrow> real \<Rightarrow> int \<Rightarrow> Mt3dms_p01" where
  \<comment> \<open>the MT3DMS part of \<^verbatim>\<open>build_model\<close>. The source assigns \<^verbatim>\<open>isothm\<close> and
      \<^verbatim>\<open>rc1\<close> in the retardation test and then \<^verbatim>\<open>ireact\<close> and \<^verbatim>\<open>rc1\<close> again in the
      decay test; \<^verbatim>\<open>kd\<close> is computed on every path.\<close>
  "build_mt_p01 cfg name mf dispersivity' retardation' decay' mixelm =
     (let c0 = 1.0;
          icbund' = set3 (full3 nlay_p01 nrow_p01 ncol_p01 1) 0 0 0 (- 1);
          sconc = set3 (full3 nlay_p01 nrow_p01 ncol_p01 0) 0 0 0 c0;
          isothm' = (if retardation' = 1.0 then 0.0 else 1);
          ireact' = (if decay' \<noteq> 0 then 1 else 0.0);
          rc1' = (if decay' \<noteq> 0 then decay' else 0.0);
          kd = (retardation' - 1.0) * prsity_p01 / rhob_p01
      in \<lparr>mt_modelname = ''p01-mt'',
          mt_model_ws = [base_ws cfg, name, ''mt3d''],
          mt_exe_name = mt3dms_exe cfg,
          mt_modflowmodel = mf,
          mt_btn = \<lparr>laycon = laytyp_p01, icbund = icbund', btn_prsity = prsity_p01,
            btn_sconc = sconc, btn_dt0 = dt0_p01, ifmtcn = 1\<rparr>,
          mt_adv = \<lparr>adv_mixelm = mixelm, adv_dceps = dceps_p01, adv_nplane = nplane_p01,
            adv_npl = npl_p01, adv_nph = nph_p01, adv_npmin = npmin_p01,
            adv_npmax = npmax_p01, adv_nlsink = nlsink_p01, adv_npsink = npsink_p01,
            adv_percel = 0.5\<rparr>,
          dsp_al = dispersivity',
          mt_rct = \<lparr>isothm = isothm', ireact = ireact', igetsc = 0, rct_rhob = rhob_p01,
            sp1 = kd, rc1 = rc1', rc2 = rc1'\<rparr>,
          mt_packages = [''BTN'', ''ADV'', ''DSP'', ''RCT'', ''SSM'', ''GCG'']\<rparr>)"

definition advection_scheme_p01 :: "int \<Rightarrow> error + string" where
  \<comment> \<open>the \<^verbatim>\<open>if mixelm == 0 ... elif mixelm == -1 ... else: raise Exception()\<close> of
      \<^verbatim>\<open>build_model\<close>\<close>
  "advection_scheme_p01 mixelm =
     (if mixelm = 0 then Inr ''UPSTREAM''
      else if mixelm = - 1 then Inr ''TVD''
      else Inl Exception)"

definition build_gwf_p01 :: ModflowGwf_p01 where
  "build_gwf_p01 =
     \<lparr>gwf_modelname = ''gwf-'' @ ''p01-mf6'',
      gwf_save_flows = True,
      gwf_length_units = length_units_p01,
      gwf_dis = \<lparr>nlay = nlay_p01, nrow = nrow_p01, ncol = ncol_p01, delr = delr_p01,
        delc = delc_p01, top_elev = top_p01, botm = botm_p01\<rparr>,
      gwf_idomain = full3 nlay_p01 nrow_p01 ncol_p01 1,
      npf_icelltype = icelltype_p01,
      npf_k = k11_p01,
      npf_k33 = k33_p01,
      ic_strt = strt_p01,
      chd_maxbound = length chdspd_p01,
      chd_stress_period_data = chdspd_p01,
      gwf_saverecord = [(''HEAD'', ''LAST''), (''BUDGET'', ''LAST'')]\<rparr>"

definition build_gwt_p01 :: "real \<Rightarrow> real \<Rightarrow> real \<Rightarrow> string \<Rightarrow> ModflowGwt_p01" where
  \<comment> \<open>the transport model of the MODFLOW 6 simulation; \<^verbatim>\<open>sconc\<close> is the local array of
      \<^verbatim>\<open>build_model\<close> (the assignment in the function hides the module's)\<close>
  "build_gwt_p01 dispersivity' retardation' decay' scheme =
     (let c0 = 1.0;
          sconc = set3 (full3 nlay_p01 nrow_p01 ncol_p01 0) 0 0 0 c0;
          sorption' = (if retardation' \<noteq> 1.0 then Some ''linear'' else None);
          kd = (if retardation' \<noteq> 1.0
                then (retardation' - 1.0) * prsity_p01 / rhob_p01 else 1.0);
          first_order_decay' = (if decay' \<noteq> 0.0 then True else False)
      in \<lparr>gwt_modelname = ''gwt-'' @ ''p01-mf6'',
          gwt_save_flows = True,
          gwt_dis = \<lparr>nlay = nlay_p01, nrow = nrow_p01, ncol = ncol_p01, delr = delr_p01,
            delc = delc_p01, top_elev = top_p01, botm = botm_p01\<rparr>,
          gwt_idomain = 1,
          gwt_strt = sconc,
          adv_scheme = scheme,
          gwt_dsp = (if dispersivity' \<noteq> 0 then Some (dispersivity', dispersivity') else None),
          gwt_mst = \<lparr>mst_porosity = prsity_p01, sorption = sorption',
            bulk_density = rhob_p01, distcoef = kd, first_order_decay = first_order_decay',
            mst_decay = decay', decay_sorbed = decay'\<rparr>,
          cnc_maxbound = length cncspd_p01,
          cnc_stress_period_data = cncspd_p01,
          ssm_sources = [[]],
          gwt_saverecord = [(''CONCENTRATION'', ''LAST''), (''BUDGET'', ''LAST'')]\<rparr>)"

definition build_model_p01 ::
  "config \<Rightarrow> string \<Rightarrow> real \<Rightarrow> real \<Rightarrow> real \<Rightarrow> int
     \<Rightarrow> error + (Modflow_p01 \<times> Mt3dms_p01 \<times> MFSimulation_p01) option" where
  \<comment> \<open>\<^verbatim>\<open>build_model(sim_name, dispersivity, retardation, decay, mixelm)\<close>: \<open>Inr None\<close> is
      the \<^verbatim>\<open>return None\<close> taken when building is switched off, \<open>Inl\<close> the exception.
      The executable \<^verbatim>\<open>mf6exe\<close> is \<^verbatim>\<open>config.mf6_exe\<close> made absolute; the record keeps
      the configured name.\<close>
  "build_model_p01 cfg name dispersivity' retardation' decay' mixelm =
     (if buildModel cfg then
        (let mf = build_mf_p01 cfg name;
             mt = build_mt_p01 cfg name mf dispersivity' retardation' decay' mixelm
         in case advection_scheme_p01 mixelm of
              Inl e \<Rightarrow> Inl e
            | Inr scheme \<Rightarrow>
                Inr (Some (mf, mt,
                  \<lparr>sim_name = name,
                   sim_ws = [base_ws cfg, name],
                   sim_exe_name = mf6_exe cfg,
                   tdis_nper = nper_p01,
                   tdis_perioddata = tdis_rc_p01,
                   tdis_time_units = time_units_p01,
                   sim_gwf = build_gwf_p01,
                   sim_gwt = build_gwt_p01 dispersivity' retardation' decay' scheme,
                   exchange = (''GWF6-GWT6'', ''gwf-'' @ ''p01-mf6'', ''gwt-'' @ ''p01-mf6''),
                   sim_packages = [''TDIS'', ''IMS'', ''IMS'', ''GWFGWT'']\<rparr>)))
      else Inr None)"


subsection \<open>Writing, running, plotting and the scenario\<close>

datatype model_p01 = Mf2005 Modflow_p01 | Mt3d Mt3dms_p01 | Mf6 MFSimulation_p01

type_synonym trace_p01 = "model_p01 event list"

text \<open>
  The answers of the outside: \<open>execute\<close> is what \<^verbatim>\<open>run_model\<close> / \<^verbatim>\<open>run_simulation\<close>
  of a flopy object returns (the success flag and the captured text) after the events so
  far. \<open>ucn_mt3d\<close> and \<open>ucn_mf6\<close> are what opening a concentration output gives: the
  exception raised when it cannot be read, or its records in stored order, each the
  simulated time it was stored at and its array over layer, row and column;
  \<^verbatim>\<open>get_alldata()\<close> returns the arrays.
\<close>

record world_p01 =
  execute :: "trace_p01 \<Rightarrow> model_p01 \<Rightarrow> bool \<times> string"
  ucn_mt3d :: "trace_p01 \<Rightarrow> path \<Rightarrow> error + (real \<times> real array3) list"
  ucn_mf6 :: "trace_p01 \<Rightarrow> MFSimulation_p01 \<Rightarrow> error + (real \<times> real array3) list"

definition write_model_p01 ::
  "config \<Rightarrow> Modflow_p01 \<Rightarrow> Mt3dms_p01 \<Rightarrow> MFSimulation_p01 \<Rightarrow> trace_p01 \<Rightarrow> trace_p01" where
  "write_model_p01 cfg mf2k5 mt3d sim tr =
     (if writeModel cfg
      then tr @ [Write (Mf2005 mf2k5), Write (Mt3d mt3d), Write (Mf6 sim)]
      else tr)"

definition run_model_p01 ::
  "config \<Rightarrow> world_p01 \<Rightarrow> Modflow_p01 \<Rightarrow> Mt3dms_p01 \<Rightarrow> MFSimulation_p01 \<Rightarrow> trace_p01
     \<Rightarrow> bool \<times> trace_p01" where
  \<comment> \<open>each call rebinds \<^verbatim>\<open>success, buff\<close>; only the last pair is tested and returned\<close>
  "run_model_p01 cfg w mf2k5 mt3d sim tr =
     (if runModel cfg then
        (let (success, buff) = execute w tr (Mf2005 mf2k5);
             tr1 = tr @ [Run (Mf2005 mf2k5)];
             (success, buff) = execute w tr1 (Mt3d mt3d);
             tr2 = tr1 @ [Run (Mt3d mt3d)];
             (success, buff) = execute w tr2 (Mf6 sim);
             tr3 = tr2 @ [Run (Mf6 sim)]
         in (success, if \<not> success then tr3 @ [Print buff] else tr3))
      else (True, tr))"

definition profile :: "real array3 list \<Rightarrow> error + real list" where
  \<comment> \<open>\<^verbatim>\<open>conc[0, 0, 0, :]\<close>\<close>
  "profile conc =
     (case conc of
        [] \<Rightarrow> Inl IndexError
      | a # _ \<Rightarrow>
          (case a of
             [] \<Rightarrow> Inl IndexError
           | lay # _ \<Rightarrow> (case lay of [] \<Rightarrow> Inl IndexError | row # _ \<Rightarrow> Inr row)))"

definition linspace :: "real \<Rightarrow> real \<Rightarrow> nat \<Rightarrow> real list" where
  \<comment> \<open>\<^verbatim>\<open>np.linspace(a, b, n)\<close> for \<open>n > 1\<close>\<close>
  "linspace a b n = map (\<lambda>i. a + real i * ((b - a) / real (n - 1))) [0..<n]"

definition plot_results_p01 ::
  "config \<Rightarrow> world_p01 \<Rightarrow> Mt3dms_p01 \<Rightarrow> MFSimulation_p01 \<Rightarrow> int \<Rightarrow> trace_p01
     \<Rightarrow> (error + unit) \<times> trace_p01" where
  \<comment> \<open>\<^verbatim>\<open>plot_results(mt3d, mf6, idx)\<close> with \<^verbatim>\<open>ax=None\<close>, as \<^verbatim>\<open>scenario\<close> calls it. Both
      outputs are opened before the figure is created. \<^verbatim>\<open>ax.plot(x, y)\<close> raises
      \<^verbatim>\<open>ValueError\<close> when \<^verbatim>\<open>x\<close> and \<^verbatim>\<open>y\<close> differ in length. The letter of the heading is
      \<^verbatim>\<open>chr(ord("@") + idx + 1)\<close>, which raises \<^verbatim>\<open>ValueError\<close> outside the range of code
      points; \<^verbatim>\<open>scenario\<close> passes indices of the table, whose letters are single bytes.\<close>
  "plot_results_p01 cfg w mt3d mf6 idx tr =
     (if plotModel cfg then
        (case ucn_mt3d w tr (mt_model_ws mt3d @ [''MT3D001.UCN'']) of
           Inl e \<Rightarrow> (Inl e, tr)
         | Inr ucnobj_mt3d \<Rightarrow>
            (case ucn_mf6 w tr mf6 of
               Inl e \<Rightarrow> (Inl e, tr)
             | Inr ucnobj_mf6 \<Rightarrow>
                (let conc_mt3d = map snd ucnobj_mt3d;
                     conc_mf6 = map snd ucnobj_mf6;
                     tr1 = tr @ [New_figure];
                     x = linspace 0 l_p01 ncol_p01
                 in case profile conc_mt3d of
                      Inl e \<Rightarrow> (Inl e, tr1)
                    | Inr y_mt3d \<Rightarrow>
                       if length x \<noteq> length y_mt3d then (Inl ValueError, tr1)
                       else
                        (let tr2 = tr1 @ [Plot ''MT3DMS'' x y_mt3d]
                         in case profile conc_mf6 of
                              Inl e \<Rightarrow> (Inl e, tr2)
                            | Inr y_mf6 \<Rightarrow>
                               if length x \<noteq> length y_mf6 then (Inl ValueError, tr2)
                               else
                                (let tr3 = tr2 @
                                       [Plot ''MF6'' x y_mf6,
                                        Set_ylim 0 1.2, Set_xlim 0 1000,
                                        Set_xlabel ''Distance, in m'',
                                        Set_ylabel ''Concentration'', Legend];
                                     title = ''Concentration Profile at Time = 2,000 ''
                                               @ time_units_p01
                                 in if 64 + idx + 1 < 0 \<or> 1114112 \<le> 64 + idx + 1
                                    then (Inl ValueError, tr3)
                                    else
                                     (let letter = [char_of (64 + idx + 1)];
                                          tr4 = tr3 @ [Heading letter title]
                                      in (Inr (),
                                          if plotSave cfg
                                          then tr4 @ [Savefig [''..'', ''figures'',
                                                        sim_name mf6 @ figure_ext cfg]]
                                          else tr4)))))))
      else (Inr (), tr))"

definition scenario_p01 ::
  "config \<Rightarrow> world_p01 \<Rightarrow> int \<Rightarrow> trace_p01 \<Rightarrow> (error + unit) \<times> trace_p01" where
  \<comment> \<open>\<^verbatim>\<open>scenario(idx)\<close>: unpacking the \<^verbatim>\<open>None\<close> that \<^verbatim>\<open>build_model\<close> returns when
      building is off raises \<^verbatim>\<open>TypeError\<close>\<close>
  "scenario_p01 cfg w idx tr =
     (case py_index parameters_p01 idx of
        Inl e \<Rightarrow> (Inl e, tr)
      | Inr (key, parameter_dict) \<Rightarrow>
         (case build_model_p01 cfg key (dispersivity parameter_dict)
                 (retardation parameter_dict) (decay parameter_dict) 0 of
            Inl e \<Rightarrow> (Inl e, tr)
          | Inr None \<Rightarrow> (Inl TypeError, tr)
          | Inr (Some (mf2k5, mt3d, sim)) \<Rightarrow>
             (let tr1 = write_model_p01 cfg mf2k5 mt3d sim tr;
                  (success, tr2) = run_model_p01 cfg w mf2k5 mt3d sim tr1
              in if success then plot_results_p01 cfg w mt3d sim idx tr2
                 else (Inr (), tr2))))"


section \<open>Problem 2: one-dimensional transport with nonlinear or nonequilibrium sorption\<close>

subsection \<open>Scenario table and module constants\<close>

text \<open>
  A scenario's dictionary is passed as keyword arguments; a key that is absent leaves the
  argument at its default \<^verbatim>\<open>None\<close>. The fields are the keywords \<^verbatim>\<open>sorption\<close>,
  \<^verbatim>\<open>Kf\<close>, \<^verbatim>\<open>a\<close>, \<^verbatim>\<open>Kl\<close>, \<^verbatim>\<open>S\<close> and \<^verbatim>\<open>beta\<close>.
\<close>

record params_p02 =
  kw_sorption :: "string option"
  kw_Kf :: "real option"
  kw_a :: "real option"
  kw_Kl :: "real option"
  kw_S :: "real option"
  kw_beta :: "real option"

definition no_params_p02 :: params_p02 where
  \<comment> \<open>the defaults of the keyword arguments\<close>
  "no_params_p02 =
     \<lparr>kw_sorption = None, kw_Kf = None, kw_a = None, kw_Kl = None, kw_S = None,
      kw_beta = None\<rparr>"

definition parameters_p02 :: "(string \<times> params_p02) list" where
  "parameters_p02 =
     [(''ex-gwt-mt3dms-p02a'',
         no_params_p02\<lparr>kw_sorption := Some ''freundlich'', kw_Kf := Some 0.3, kw_a := Some 0.7\<rparr>),
      (''ex-gwt-mt3dms-p02b'',
         no_params_p02\<lparr>kw_sorption := Some ''langmuir'', kw_Kl := Some 100.0, kw_S := Some 0.003\<rparr>),
      (''ex-gwt-mt3dms-p02c'', no_params_p02\<lparr>kw_beta := Some 0.0\<rparr>),
      (''ex-gwt-mt3dms-p02d'', no_params_p02\<lparr>kw_beta := Some 0.002\<rparr>),
      (''ex-gwt-mt3dms-p02e'', no_params_p02\<lparr>kw_beta := Some 0.01\<rparr>),
      (''ex-gwt-mt3dms-p02f'', no_params_p02\<lparr>kw_beta := Some 20.0\<rparr>)]"

named_theorems p02_consts \<open>values of the module constants of problem 2\<close>


definition length_units_p02 :: string where
  [p02_consts]: "length_units_p02 = ''cm''"

definition time_units_p02 :: string where
  [p02_consts]: "time_units_p02 = ''seconds''"

definition nper_p02 :: nat where
  [p02_consts]: "nper_p02 = 2"

definition nlay_p02 :: nat where
  [p02_consts]: "nlay_p02 = 1"

definition nrow_p02 :: nat where
  [p02_consts]: "nrow_p02 = 1"

definition ncol_p02 :: nat where
  [p02_consts]: "ncol_p02 = 101"

definition period1_p02 :: real where
  [p02_consts]: "period1_p02 = 160"

definition period2_p02 :: real where
  [p02_consts]: "period2_p02 = 1340"

definition delta_time_p02 :: real where
  [p02_consts]: "delta_time_p02 = 1.0"

definition delr_p02 :: real where
  [p02_consts]: "delr_p02 = 0.16"

definition delc_p02 :: real where
  [p02_consts]: "delc_p02 = 0.16"

definition top_p02 :: real where
  [p02_consts]: "top_p02 = 1.0"

definition botm_p02 :: real where
  [p02_consts]: "botm_p02 = 0"

definition velocity_p02 :: real where
  [p02_consts]: "velocity_p02 = 0.1"

definition hydraulic_conductivity_p02 :: real where
  [p02_consts]: "hydraulic_conductivity_p02 = 0.01"

definition porosity_p02 :: real where
  [p02_consts]: "porosity_p02 = 0.37"

definition bulk_density_p02 :: real where
  [p02_consts]: "bulk_density_p02 = 1.587"

definition distribution_coefficient_p02 :: real where
  [p02_consts]: "distribution_coefficient_p02 = 0.933"

definition dispersivity_p02 :: real where
  [p02_consts]: "dispersivity_p02 = 1.0"

definition source_concentration_p02 :: real where
  [p02_consts]: "source_concentration_p02 = 0.05"

definition initial_concentration_p02 :: real where
  [p02_consts]: "initial_concentration_p02 = 0.0"

definition specific_discharge_p02 :: real where
  [p02_consts]: "specific_discharge_p02 = velocity_p02 * porosity_p02"

definition inflow_rate_p02 :: real where
  [p02_consts]: "inflow_rate_p02 = specific_discharge_p02 * delc_p02 * (top_p02 - botm_p02)"

definition grid_p02 :: grid where
  \<comment> \<open>the discretisation arguments, the same in all four builders\<close>
  "grid_p02 =
     \<lparr>nlay = nlay_p02, nrow = nrow_p02, ncol = ncol_p02, delr = delr_p02, delc = delc_p02,
      top_elev = top_p02, botm = botm_p02\<rparr>"

definition tdis_ds_p02 :: "(real \<times> int \<times> real) list" where
  \<comment> \<open>\<^verbatim>\<open>int(x)\<close> of a non-negative float is its floor\<close>
  "tdis_ds_p02 =
     [(period1_p02, \<lfloor>period1_p02 / delta_time_p02\<rfloor>, 1.0),
      (period2_p02, \<lfloor>period2_p02 / delta_time_p02\<rfloor>, 1.0)]"

subsection \<open>Simulation descriptions\<close>

record Mf6gwf_p02 =
  f_name :: string
  f_sim_ws :: path
  f_exe_name :: string
  f_nper :: nat
  f_perioddata :: "(real \<times> int \<times> real) list"
  f_time_units :: string
  f_dvclose :: real
  f_length_units :: string
  f_dis :: grid
  f_icelltype :: int
  f_k :: real
  f_strt :: real
  f_chd :: "((nat \<times> nat \<times> nat) \<times> real) list"
  f_wel :: "(nat \<times> ((nat \<times> nat \<times> nat) \<times> real \<times> real) list) list"
  f_wel_pname :: string
  f_head_filerecord :: string
  f_budget_filerecord :: string
  f_saverecord :: "(string \<times> string) list"

record Gwtmst_p02 =
  mst2_porosity :: real
  mst2_bulk_density :: real
  mst2_sorption :: "string option"
  mst2_distcoef :: "real option"
  mst2_sp2 :: "real option"

record Mf6gwt_p02 =
  t_name :: string
  t_sim_ws :: path
  t_exe_name :: string
  t_nper :: nat
  t_perioddata :: "(real \<times> int \<times> real) list"
  t_time_units :: string
  t_dvclose :: real
  t_length_units :: string
  t_dis :: grid
  t_strt :: real
  t_mst :: Gwtmst_p02
  t_adv_scheme :: string
  t_dsp :: "real \<times> real"
  t_ist :: "(real \<times> real) option"
  t_fmi :: "(string \<times> string) list"
  t_ssm_sources :: "string list list"
  t_obs :: "(string \<times> (string \<times> string \<times> nat \<times> nat \<times> nat) list) list"
  t_saverecord :: "(string \<times> string) list"

record Mf2005_p02 =
  m_modelname :: string
  m_model_ws :: path
  m_exe_name :: string
  m_dis :: grid
  m_nper :: nat
  m_perlen :: "real list"
  m_hk :: real
  m_chd :: "(nat \<times> nat \<times> nat \<times> real \<times> real) list"
  m_wel :: "(nat \<times> nat \<times> nat \<times> real) list"
  m_packages :: "string list"

record Mt3dRct_p02 =
  rct2_isothm :: int
  rct2_igetsc :: int
  rct2_rhob :: real
  rct2_sp1 :: real
  rct2_sp2 :: "real option"

record Mt3dms_p02 =
  c_modelname :: string
  c_model_ws :: path
  c_exe_name :: string
  c_modflowmodel :: Mf2005_p02
  c_ftlfilename :: string
  c_laycon :: int
  c_prsity :: real
  c_dt0 :: real
  c_ifmtcn :: int
  c_obs :: "(nat \<times> nat \<times> nat) list"
  c_mixelm :: int
  c_al :: real
  c_rct :: Mt3dRct_p02
  c_mxss :: nat
  c_ssm :: "(nat \<times> (nat \<times> nat \<times> nat \<times> real \<times> int) list) list"
  c_cclose :: real

datatype model_p02 =
    Gwf Mf6gwf_p02
  | Gwt Mf6gwt_p02
  | Mf2005' Mf2005_p02
  | Mt3dms' Mt3dms_p02

type_synonym trace_p02 = "model_p02 event list"

type_synonym sims_p02 = "Mf6gwf_p02 \<times> Mf6gwt_p02 \<times> Mf2005_p02 \<times> Mt3dms_p02"

subsection \<open>The four builders and \<^verbatim>\<open>build_model\<close>\<close>

definition build_mf6gwf_p02 :: "config \<Rightarrow> string \<Rightarrow> trace_p02 \<Rightarrow> Mf6gwf_p02 \<times> trace_p02" where
  "build_mf6gwf_p02 cfg sim_folder tr =
     (let name = ''flow'';
          htol = 0.00000001
      in (\<lparr>f_name = name,
           f_sim_ws = [base_ws cfg, sim_folder, ''mf6gwf''],
           f_exe_name = mf6_exe cfg,
           f_nper = nper_p02,
           f_perioddata = tdis_ds_p02,
           f_time_units = time_units_p02,
           f_dvclose = htol,
           f_length_units = length_units_p02,
           f_dis = grid_p02,
           f_icelltype = 0,
           f_k = hydraulic_conductivity_p02,
           f_strt = 1.0,
           f_chd = [((0, 0, ncol_p02 - 1), 1.0)],
           f_wel = [(0, [((0, 0, 0), inflow_rate_p02, source_concentration_p02)]),
                    (1, [((0, 0, 0), inflow_rate_p02, 0.0)])],
           f_wel_pname = ''WEL-1'',
           f_head_filerecord = name @ ''.hds'',
           f_budget_filerecord = name @ ''.bud'',
           f_saverecord = [(''HEAD'', ''ALL''), (''BUDGET'', ''ALL'')]\<rparr>,
          tr @ [Print (''Building mf6gwf model...'' @ sim_folder)]))"

definition build_mf6gwt_p02 ::
  "config \<Rightarrow> string \<Rightarrow> params_p02 \<Rightarrow> trace_p02 \<Rightarrow> Mf6gwt_p02 \<times> trace_p02" where
  \<comment> \<open>\<^verbatim>\<open>build_mf6gwt(sim_folder, sorption, Kf, a, Kl, S, beta)\<close>: two independent chains of
      tests set \<^verbatim>\<open>distcoef\<close> and \<^verbatim>\<open>sp2\<close>, \<^verbatim>\<open>sorption\<close> is handed on as received, and
      the immobile-domain package is added when \<^verbatim>\<open>beta\<close> is given and positive\<close>
  "build_mf6gwt_p02 cfg sim_folder kw tr =
     (let name = ''trans'';
          ctol = 0.00000001;
          distcoef0 = None;
          distcoef1 = (if kw_Kf kw \<noteq> None then kw_Kf kw else distcoef0);
          distcoef2 = (if kw_Kl kw \<noteq> None then kw_Kl kw else distcoef1);
          sp2_0 = None;
          sp2_1 = (if kw_a kw \<noteq> None then kw_a kw else sp2_0);
          sp2_2 = (if kw_S kw \<noteq> None then kw_S kw else sp2_1);
          ist = (case kw_beta kw of
                   None \<Rightarrow> None
                 | Some beta \<Rightarrow> if beta > 0 then Some (bulk_density_p02, beta) else None)
      in (\<lparr>t_name = name,
           t_sim_ws = [base_ws cfg, sim_folder, ''mf6gwt''],
           t_exe_name = mf6_exe cfg,
           t_nper = nper_p02,
           t_perioddata = tdis_ds_p02,
           t_time_units = time_units_p02,
           t_dvclose = ctol,
           t_length_units = length_units_p02,
           t_dis = grid_p02,
           t_strt = initial_concentration_p02,
           t_mst = \<lparr>mst2_porosity = porosity_p02, mst2_bulk_density = bulk_density_p02,
             mst2_sorption = kw_sorption kw, mst2_distcoef = distcoef2, mst2_sp2 = sp2_2\<rparr>,
           t_adv_scheme = ''UPSTREAM'',
           t_dsp = (dispersivity_p02, dispersivity_p02),
           t_ist = ist,
           t_fmi = [(''GWFHEAD'', ''../mf6gwf/flow.hds''), (''GWFBUDGET'', ''../mf6gwf/flow.bud'')],
           t_ssm_sources = [[''WEL-1'', ''AUX'', ''CONCENTRATION'']],
           t_obs = [(name @ ''.obs.csv'', [(''X008'', ''CONCENTRATION'', 0, 0, 50)])],
           t_saverecord = [(''CONCENTRATION'', ''ALL''), (''BUDGET'', ''LAST'')]\<rparr>,
          tr @ [Print (''Building mf6gwt model...'' @ sim_folder)]))"

definition build_mf2005_p02 :: "config \<Rightarrow> string \<Rightarrow> trace_p02 \<Rightarrow> Mf2005_p02 \<times> trace_p02" where
  "build_mf2005_p02 cfg sim_folder tr =
     (\<lparr>m_modelname = ''flow'',
       m_model_ws = [base_ws cfg, sim_folder, ''mf2005''],
       m_exe_name = mf2005_exe cfg,
       m_dis = grid_p02,
       m_nper = nper_p02,
       m_perlen = [period1_p02, period2_p02],
       m_hk = hydraulic_conductivity_p02,
       m_chd = [(0, 0, ncol_p02 - 1, 1.0, 1.0)],
       m_wel = [(0, 0, 0, inflow_rate_p02)],
       m_packages = [''DIS'', ''BAS6'', ''LPF'', ''PCG'', ''LMT'', ''CHD'', ''WEL'']\<rparr>,
      tr @ [Print (''Building mf2005 model...'' @ sim_folder)])"

definition select_isotherm_p02 :: "params_p02 \<Rightarrow> (int \<times> real \<times> real option) option" where
  \<comment> \<open>the three \<^verbatim>\<open>if ... is not None\<close> tests of \<^verbatim>\<open>build_mt3dms\<close>, in the source's order;
      each one that fires overwrites \<^verbatim>\<open>isothm\<close>, \<^verbatim>\<open>sp1\<close> and \<^verbatim>\<open>sp2\<close>. \<open>None\<close>: no test
      fired and the three names are unbound.\<close>
  "select_isotherm_p02 kw =
     (let r0 = None;
          r1 = (case kw_beta kw of
                  Some beta \<Rightarrow> Some (4, distribution_coefficient_p02, Some beta)
                | None \<Rightarrow> r0);
          r2 = (case kw_Kf kw of Some Kf \<Rightarrow> Some (2, Kf, kw_a kw) | None \<Rightarrow> r1);
          r3 = (case kw_Kl kw of Some Kl \<Rightarrow> Some (3, Kl, kw_S kw) | None \<Rightarrow> r2)
      in r3)"

definition build_mt3dms_p02 ::
  "config \<Rightarrow> string \<Rightarrow> Mf2005_p02 \<Rightarrow> params_p02 \<Rightarrow> trace_p02
     \<Rightarrow> (error + Mt3dms_p02) \<times> trace_p02" where
  \<comment> \<open>\<^verbatim>\<open>build_mt3dms(sim_folder, modflowmodel, sorption, Kf, a, Kl, S, beta)\<close>; reading the
      unbound \<^verbatim>\<open>isothm\<close> raises \<^verbatim>\<open>UnboundLocalError\<close>\<close>
  "build_mt3dms_p02 cfg sim_folder modflowmodel kw tr =
     (let tr1 = tr @ [Print (''Building mt3dms model...'' @ sim_folder)]
      in case select_isotherm_p02 kw of
           None \<Rightarrow> (Inl UnboundLocalError, tr1)
         | Some (isothm', sp1', sp2') \<Rightarrow>
             (Inr \<lparr>c_modelname = ''trans'',
                   c_model_ws = [base_ws cfg, sim_folder, ''mt3d''],
                   c_exe_name = mt3dms_exe cfg,
                   c_modflowmodel = modflowmodel,
                   c_ftlfilename = ''../mf2005/mt3d_link.ftl'',
                   c_laycon = 0,
                   c_prsity = porosity_p02,
                   c_dt0 = delta_time_p02,
                   c_ifmtcn = 1,
                   c_obs = [(0, 0, 50)],
                   c_mixelm = 0,
                   c_al = dispersivity_p02,
                   c_rct = \<lparr>rct2_isothm = isothm', rct2_igetsc = 0,
                     rct2_rhob = bulk_density_p02, rct2_sp1 = sp1', rct2_sp2 = sp2'\<rparr>,
                   c_mxss = 2,
                   c_ssm = [(0, [(0, 0, 0, source_concentration_p02, 2)]),
                            (1, [(0, 0, 0, 0.0, 2)])],
                   c_cclose = 0.00000001\<rparr>,
              tr1))"

definition build_model_p02 ::
  "config \<Rightarrow> string \<Rightarrow> params_p02 \<Rightarrow> trace_p02 \<Rightarrow> (error + sims_p02 option) \<times> trace_p02" where
  "build_model_p02 cfg sim_name' kw tr =
     (if buildModel cfg then
        (let (sim_mf6gwf, tr1) = build_mf6gwf_p02 cfg sim_name' tr;
             (sim_mf6gwt, tr2) = build_mf6gwt_p02 cfg sim_name' kw tr1;
             (sim_mf2005, tr3) = build_mf2005_p02 cfg sim_name' tr2
         in case build_mt3dms_p02 cfg sim_name' sim_mf2005 kw tr3 of
              (Inl e, tr4) \<Rightarrow> (Inl e, tr4)
            | (Inr sim_mt3dms, tr4) \<Rightarrow>
                (Inr (Some (sim_mf6gwf, sim_mf6gwt, sim_mf2005, sim_mt3dms)), tr4))
      else (Inr None, tr))"

subsection \<open>Writing, running, plotting and the scenario\<close>

text \<open>
  The outside of problem 2: \<open>execute2\<close> answers a solver run; \<open>obs_mf6\<close> and
  \<open>obs_mt3d\<close> are what reading an observation file gives, the exception raised when it
  cannot be read or its rows, each a time and a concentration (the columns \<^verbatim>\<open>totim\<close> and
  \<^verbatim>\<open>X008\<close>, \<^verbatim>\<open>time\<close> and \<^verbatim>\<open>(1, 1, 51)\<close>); \<open>format_float\<close> is Python's text of a
  float.
\<close>

record world_p02 =
  execute2 :: "trace_p02 \<Rightarrow> model_p02 \<Rightarrow> bool \<times> string"
  obs_mf6 :: "trace_p02 \<Rightarrow> path \<Rightarrow> error + (real \<times> real) list"
  obs_mt3d :: "trace_p02 \<Rightarrow> path \<Rightarrow> error + (real \<times> real) list"
  format_float :: "real \<Rightarrow> string"

definition write_model_p02 ::
  "config \<Rightarrow> sims_p02 option \<Rightarrow> trace_p02 \<Rightarrow> (error + unit) \<times> trace_p02" where
  \<comment> \<open>unpacking \<^verbatim>\<open>sims\<close> when it is \<^verbatim>\<open>None\<close> raises \<^verbatim>\<open>TypeError\<close>\<close>
  "write_model_p02 cfg sims tr =
     (if writeModel cfg then
        (case sims of
           None \<Rightarrow> (Inl TypeError, tr)
         | Some (sim_mf6gwf, sim_mf6gwt, sim_mf2005, sim_mt3dms) \<Rightarrow>
             (Inr (), tr @ [Write (Gwf sim_mf6gwf), Write (Gwt sim_mf6gwt),
                            Write (Mf2005' sim_mf2005), Write (Mt3dms' sim_mt3dms)]))
      else (Inr (), tr))"

definition run_solver_p02 ::
  "world_p02 \<Rightarrow> string \<Rightarrow> model_p02 \<Rightarrow> trace_p02 \<Rightarrow> bool \<times> trace_p02" where
  \<comment> \<open>one block of \<^verbatim>\<open>run_model\<close>: the announcement, the run, and the captured text when the
      run failed\<close>
  "run_solver_p02 w announce m tr =
     (let tr1 = tr @ [Print announce];
          (success, buff) = execute2 w tr1 m;
          tr2 = tr1 @ [Run m]
      in (success, if \<not> success then tr2 @ [Print buff] else tr2))"

definition run_model_p02 ::
  "config \<Rightarrow> world_p02 \<Rightarrow> sims_p02 option \<Rightarrow> trace_p02 \<Rightarrow> (error + bool) \<times> trace_p02" where
  \<comment> \<open>\<^verbatim>\<open>success\<close> is rebound by each of the four runs; the value returned is the last\<close>
  "run_model_p02 cfg w sims tr =
     (if runModel cfg then
        (case sims of
           None \<Rightarrow> (Inl TypeError, tr)
         | Some (sim_mf6gwf, sim_mf6gwt, sim_mf2005, sim_mt3dms) \<Rightarrow>
             (let (success, tr1) = run_solver_p02 w ''Running mf6gwf...'' (Gwf sim_mf6gwf) tr;
                  (success, tr2) = run_solver_p02 w ''Running mf6gwt...'' (Gwt sim_mf6gwt) tr1;
                  (success, tr3) = run_solver_p02 w ''Running mf2005...'' (Mf2005' sim_mf2005) tr2;
                  (success, tr4) = run_solver_p02 w ''Running mt3dms...'' (Mt3dms' sim_mt3dms) tr3
              in (Inr success, tr4)))
      else (Inr True, tr))"

definition plot_results_ct_p02 ::
  "config \<Rightarrow> world_p02 \<Rightarrow> sims_p02 option \<Rightarrow> int \<Rightarrow> trace_p02 \<Rightarrow> (error + unit) \<times> trace_p02" where
  \<comment> \<open>the MODFLOW 6 observations are read before the figure is created, the MT3DMS
      observations after\<close>
  "plot_results_ct_p02 cfg w sims idx tr =
     (if plotModel cfg then
        (let tr1 = tr @ [Print ''Plotting C versus t model results...'']
         in case sims of
              None \<Rightarrow> (Inl TypeError, tr1)
            | Some (sim_mf6gwf, sim_mf6gwt, sim_mf2005, sim_mt3dms) \<Rightarrow>
               (case obs_mf6 w tr1 (t_sim_ws sim_mf6gwt @ [''trans.obs.csv'']) of
                  Inl e \<Rightarrow> (Inl e, tr1)
                | Inr mf6gwt_ra \<Rightarrow>
                   (let tr2 = tr1 @ [New_figure];
                        sim_ws' = c_model_ws sim_mt3dms
                    in case obs_mt3d w tr2 (sim_ws' @ [''MT3D001.OBS'']) of
                         Inl e \<Rightarrow> (Inl e, tr2)
                       | Inr mt_ra \<Rightarrow>
                          (let tr3 = tr2 @
                                 [Plot ''MT3DMS'' (map fst mt_ra)
                                    (map (\<lambda>c. c / source_concentration_p02) (map snd mt_ra)),
                                  Plot ''MODFLOW 6'' (map fst mf6gwt_ra)
                                    (map (\<lambda>c. c / source_concentration_p02)
                                       (map snd mf6gwt_ra)),
                                  Set_ylim 0.0 1.0];
                               tr4 = (if idx = 0 then tr3 @ [Set_ylim 0 0.5] else tr3);
                               tr5 = (if idx = 1 then tr4 @ [Set_xlim 0 500] else tr4);
                               tr6 = tr5 @ [Set_xlabel ''Time (seconds)'',
                                            Set_ylabel ''Normalized Concentration (unitless)'',
                                            Legend]
                           in (Inr (),
                               if plotSave cfg then
                                 (let sim_folder = last (butlast sim_ws');
                                      fname = sim_folder @ ''-ct'' @ figure_ext cfg
                                  in tr6 @ [Savefig [base_ws cfg, ''..'', ''figures'', fname]])
                               else tr6)))))
      else (Inr (), tr))"

fun stride :: "nat \<Rightarrow> 'a list \<Rightarrow> 'a list" where
  \<comment> \<open>\<^verbatim>\<open>xs[::k]\<close> for \<open>k > 0\<close>\<close>
  "stride k [] = []"
| "stride k (x # xs) = x # stride k (drop (k - 1) xs)"



definition scenario_p02 ::
  "config \<Rightarrow> world_p02 \<Rightarrow> int \<Rightarrow> trace_p02 \<Rightarrow> (error + unit) \<times> trace_p02" where
  "scenario_p02 cfg w idx tr =
     (case py_index parameters_p02 idx of
        Inl e \<Rightarrow> (Inl e, tr)
      | Inr (key, parameter_dict) \<Rightarrow>
         (case build_model_p02 cfg key parameter_dict tr of
            (Inl e, tr1) \<Rightarrow> (Inl e, tr1)
          | (Inr sims, tr1) \<Rightarrow>
             (case write_model_p02 cfg sims tr1 of
                (Inl e, tr2) \<Rightarrow> (Inl e, tr2)
              | (Inr _, tr2) \<Rightarrow>
                 (case run_model_p02 cfg w sims tr2 of
                    (Inl e, tr3) \<Rightarrow> (Inl e, tr3)
                  | (Inr success, tr3) \<Rightarrow>
                      if success then plot_results_ct_p02 cfg w sims idx tr3
                      else (Inr (), tr3)))))"

section \<open>Auxiliary definitions for the statements\<close>

text \<open>
  Projections of what \<^verbatim>\<open>build_model\<close> of problem 1 returns, the relation "equal up to the
  decay-dependent entries", and concrete configurations and worlds at which the theorems
  are instantiated.
\<close>

definition built_mt_p01 ::
  "error + (Modflow_p01 \<times> Mt3dms_p01 \<times> MFSimulation_p01) option \<Rightarrow> Mt3dms_p01 option" where
  "built_mt_p01 r = (case r of Inr (Some (mf, mt, sim)) \<Rightarrow> Some mt | _ \<Rightarrow> None)"

definition built_sim_p01 ::
  "error + (Modflow_p01 \<times> Mt3dms_p01 \<times> MFSimulation_p01) option \<Rightarrow> MFSimulation_p01 option" where
  "built_sim_p01 r = (case r of Inr (Some (mf, mt, sim)) \<Rightarrow> Some sim | _ \<Rightarrow> None)"

fun same_but_decay_p01 ::
  "Modflow_p01 \<times> Mt3dms_p01 \<times> MFSimulation_p01
     \<Rightarrow> Modflow_p01 \<times> Mt3dms_p01 \<times> MFSimulation_p01 \<Rightarrow> bool" where
  "same_but_decay_p01 (mf1, mt1, sim1) (mf2, mt2, sim2) =
     (mf2 = mf1 \<and>
      mt2 = mt1\<lparr>mt_rct := (mt_rct mt1)\<lparr>ireact := ireact (mt_rct mt2),
                    rc1 := rc1 (mt_rct mt2), rc2 := rc2 (mt_rct mt2)\<rparr>\<rparr> \<and>
      sim2 = sim1\<lparr>sim_gwt := (sim_gwt sim1)\<lparr>gwt_mst := (gwt_mst (sim_gwt sim1))
                    \<lparr>first_order_decay := first_order_decay (gwt_mst (sim_gwt sim2)),
                     mst_decay := mst_decay (gwt_mst (sim_gwt sim2)),
                     decay_sorbed := decay_sorbed (gwt_mst (sim_gwt sim2))\<rparr>\<rparr>\<rparr> \<and>
      sp1 (mt_rct mt2) = sp1 (mt_rct mt1) \<and>
      distcoef (gwt_mst (sim_gwt sim2)) = distcoef (gwt_mst (sim_gwt sim1)))"

definition config_all_on :: config where
  "config_all_on =
     \<lparr>buildModel = True, writeModel = True, runModel = True, plotModel = True,
      plotSave = True, base_ws = ''examples'', mf6_exe = ''mf6'', mf2005_exe = ''mf2005'',
      mt3dms_exe = ''mt3dms'', figure_ext = ''.png''\<rparr>"

definition world_ok_p01 :: world_p01 where
  \<comment> \<open>every solver succeeds; each output holds one record, stored at time 2000, with 101
      columns\<close>
  "world_ok_p01 =
     \<lparr>execute = (\<lambda>tr m. (True, [])),
      ucn_mt3d = (\<lambda>tr p. Inr [(2000, [[replicate 101 0.5]])]),
      ucn_mf6 = (\<lambda>tr s. Inr [(2000, [[replicate 101 0.25]])])\<rparr>"

definition world_no_output_p01 :: world_p01 where
  \<comment> \<open>no solver output can be read\<close>
  "world_no_output_p01 =
     \<lparr>execute = (\<lambda>tr m. (True, [])),
      ucn_mt3d = (\<lambda>tr p. Inl FileNotFoundError),
      ucn_mf6 = (\<lambda>tr s. Inl FileNotFoundError)\<rparr>"

definition world_mf6_fails_p01 :: world_p01 where
  \<comment> \<open>the MODFLOW 6 run fails, the two others succeed\<close>
  "world_mf6_fails_p01 =
     world_ok_p01\<lparr>execute :=
       (\<lambda>tr m. case m of Mf6 _ \<Rightarrow> (False, ''mf6 failed'') | _ \<Rightarrow> (True, []))\<rparr>"

definition world_only_mf6_ok_p01 :: world_p01 where
  \<comment> \<open>the MODFLOW-2005 run and the MT3DMS run fail, the MODFLOW 6 run succeeds\<close>
  "world_only_mf6_ok_p01 =
     world_ok_p01\<lparr>execute :=
       (\<lambda>tr m. case m of
                  Mf2005 _ \<Rightarrow> (False, ''mf2005 failed'')
                | Mt3d _ \<Rightarrow> (False, ''mt3dms failed'')
                | Mf6 _ \<Rightarrow> (True, []))\<rparr>"

definition world_ok_p02 :: world_p02 where
  \<comment> \<open>every solver succeeds; each observation file holds two rows\<close>
  "world_ok_p02 =
     \<lparr>execute2 = (\<lambda>tr m. (True, [])),
      obs_mf6 = (\<lambda>tr p. Inr [(1, 0.05), (2, 0.025)]),
      obs_mt3d = (\<lambda>tr p. Inr [(1, 0.05), (2, 0.01)]),
      format_float = (\<lambda>x. ''x'')\<rparr>"

definition world_mt3dms_fails_p02 :: world_p02 where
  \<comment> \<open>the MT3DMS run, the last of the four, fails\<close>
  "world_mt3dms_fails_p02 =
     world_ok_p02\<lparr>execute2 :=
       (\<lambda>tr m. case m of Mt3dms' _ \<Rightarrow> (False, ''mt3dms failed'') | _ \<Rightarrow> (True, []))\<rparr>"

definition world_only_mt3dms_ok_p02 :: world_p02 where
  \<comment> \<open>the first three runs fail, the MT3DMS run succeeds\<close>
  "world_only_mt3dms_ok_p02 =
     world_ok_p02\<lparr>execute2 :=
       (\<lambda>tr m. case m of Mt3dms' _ \<Rightarrow> (True, []) | _ \<Rightarrow> (False, ''failed''))\<rparr>"


definition kw_conflict_p02 :: params_p02 where
  \<comment> \<open>parameters of all three sorption and reaction models at once\<close>
  "kw_conflict_p02 =
     \<lparr>kw_sorption = Some ''freundlich'', kw_Kf = Some 0.3, kw_a = Some 0.7,
      kw_Kl = Some 100, kw_S = Some 0.003, kw_beta = Some 0.002\<rparr>"

definition kw_mixed_p02 :: params_p02 where
  \<comment> \<open>the Langmuir constant together with the Freundlich exponent\<close>
  "kw_mixed_p02 =
     \<lparr>kw_sorption = Some ''langmuir'', kw_Kf = None, kw_a = Some 0.7,
      kw_Kl = Some 100, kw_S = None, kw_beta = None\<rparr>"

definition built_rct_p02 ::
  "(error + Mt3dms_p02) \<times> trace_p02 \<Rightarrow> (int \<times> real \<times> real option) option" where
  \<comment> \<open>\<^verbatim>\<open>isothm\<close>, \<^verbatim>\<open>sp1\<close> and \<^verbatim>\<open>sp2\<close> of the reaction package of a built MT3DMS model\<close>
  "built_rct_p02 r =
     (case fst r of
        Inl e \<Rightarrow> None
      | Inr mt \<Rightarrow> Some (rct2_isothm (c_rct mt), rct2_sp1 (c_rct mt), rct2_sp2 (c_rct mt)))"

section \<open>Problem 1: the builder\<close>

lemma advection_scheme_p01_cases:
  "advection_scheme_p01 m =
     (if m = 0 then Inr ''UPSTREAM'' else if m = - 1 then Inr ''TVD'' else Inl Exception)"
  by (simp add: advection_scheme_p01_def)

lemma build_model_p01_off:
  "\<not> buildModel cfg \<Longrightarrow> build_model_p01 cfg name al r d m = Inr None"
  by (simp add: build_model_p01_def)

lemma build_model_p01_on:
  assumes "buildModel cfg"
  shows "build_model_p01 cfg name al r d m =
           (case advection_scheme_p01 m of
              Inl e \<Rightarrow> Inl e
            | Inr scheme \<Rightarrow>
                Inr (Some (build_mf_p01 cfg name,
                  build_mt_p01 cfg name (build_mf_p01 cfg name) al r d m,
                  \<lparr>sim_name = name, sim_ws = [base_ws cfg, name], sim_exe_name = mf6_exe cfg,
                   tdis_nper = nper_p01, tdis_perioddata = tdis_rc_p01,
                   tdis_time_units = time_units_p01, sim_gwf = build_gwf_p01,
                   sim_gwt = build_gwt_p01 al r d scheme,
                   exchange = (''GWF6-GWT6'', ''gwf-'' @ ''p01-mf6'', ''gwt-'' @ ''p01-mf6''),
                   sim_packages = [''TDIS'', ''IMS'', ''IMS'', ''GWFGWT'']\<rparr>)))"
  using assms by (simp add: build_model_p01_def Let_def)

lemma build_model_p01_Some:
  assumes "build_model_p01 cfg name al r d m = Inr (Some (mf, mt, sim))"
  shows "buildModel cfg"
    and "mf = build_mf_p01 cfg name"
    and "mt = build_mt_p01 cfg name mf al r d m"
    and "\<exists>scheme. advection_scheme_p01 m = Inr scheme \<and> sim_gwt sim = build_gwt_p01 al r d scheme"
proof -
  show b: "buildModel cfg"
    using assms by (cases "buildModel cfg") (simp_all add: build_model_p01_off)
  from assms show "mf = build_mf_p01 cfg name"
    by (simp add: build_model_p01_on [OF b] split: sum.splits)
  from assms show "mt = build_mt_p01 cfg name mf al r d m"
    by (auto simp add: build_model_p01_on [OF b] split: sum.splits)
  from assms
  show "\<exists>scheme. advection_scheme_p01 m = Inr scheme \<and> sim_gwt sim = build_gwt_p01 al r d scheme"
    by (auto simp add: build_model_p01_on [OF b] split: sum.splits)
qed

text \<open>
  Claim C10. In \<^verbatim>\<open>build_model\<close> of problem 1 the selection of the advection scheme raises
  exactly when \<^verbatim>\<open>mixelm\<close> is neither 0 nor -1; 0 selects \<^verbatim>\<open>UPSTREAM\<close> and -1 selects
  \<^verbatim>\<open>TVD\<close> for the MODFLOW 6 transport model. Hence \<^verbatim>\<open>build_model\<close> raises exactly when
  building is enabled and \<^verbatim>\<open>mixelm\<close> is neither value, and every scenario of the parameter
  table, built with the default \<^verbatim>\<open>mixelm = 0\<close>, builds without error.
\<close>

theorem advection_scheme_selection_p01:
  "((\<exists>e. advection_scheme_p01 m = Inl e) \<longleftrightarrow> m \<noteq> 0 \<and> m \<noteq> - 1) \<and>
   advection_scheme_p01 0 = Inr ''UPSTREAM'' \<and>
   advection_scheme_p01 (- 1) = Inr ''TVD'' \<and>
   ((\<exists>e. build_model_p01 cfg name al r d m = Inl e) \<longleftrightarrow> buildModel cfg \<and> m \<noteq> 0 \<and> m \<noteq> - 1) \<and>
   (buildModel cfg \<longrightarrow>
      map_option (\<lambda>sim. adv_scheme (sim_gwt sim))
        (built_sim_p01 (build_model_p01 cfg name al r d 0)) = Some ''UPSTREAM'' \<and>
      map_option (\<lambda>sim. adv_scheme (sim_gwt sim))
        (built_sim_p01 (build_model_p01 cfg name al r d (- 1))) = Some ''TVD'') \<and>
   (\<forall>(key, p) \<in> set parameters_p01.
      \<forall>e. build_model_p01 cfg key (dispersivity p) (retardation p) (decay p) 0 \<noteq> Inl e)"
proof (intro conjI)
  show "(\<exists>e. advection_scheme_p01 m = Inl e) \<longleftrightarrow> m \<noteq> 0 \<and> m \<noteq> - 1"
    by (simp add: advection_scheme_p01_cases)
  show "advection_scheme_p01 0 = Inr ''UPSTREAM''"
    by (simp add: advection_scheme_p01_cases)
  show "advection_scheme_p01 (- 1) = Inr ''TVD''"
    by (simp add: advection_scheme_p01_cases)
  show "(\<exists>e. build_model_p01 cfg name al r d m = Inl e) \<longleftrightarrow> buildModel cfg \<and> m \<noteq> 0 \<and> m \<noteq> - 1"
  proof (cases "buildModel cfg")
    case True
    then show ?thesis
      by (simp add: build_model_p01_on advection_scheme_p01_cases)
  next
    case False
    then show ?thesis
      by (simp add: build_model_p01_off)
  qed
  show "buildModel cfg \<longrightarrow>
      map_option (\<lambda>sim. adv_scheme (sim_gwt sim))
        (built_sim_p01 (build_model_p01 cfg name al r d 0)) = Some ''UPSTREAM'' \<and>
      map_option (\<lambda>sim. adv_scheme (sim_gwt sim))
        (built_sim_p01 (build_model_p01 cfg name al r d (- 1))) = Some ''TVD''"
    by (simp add: build_model_p01_on advection_scheme_p01_cases built_sim_p01_def
        build_gwt_p01_def)
  show "\<forall>(key, p) \<in> set parameters_p01.
      \<forall>e. build_model_p01 cfg key (dispersivity p) (retardation p) (decay p) 0 \<noteq> Inl e"
  proof (cases "buildModel cfg")
    case True
    then show ?thesis
      by (simp add: build_model_p01_on advection_scheme_p01_cases split: prod.splits)
  next
    case False
    then show ?thesis
      by (simp add: build_model_p01_off split: prod.splits)
  qed
qed

theorem advection_scheme_selection_p01_witness:
  "(\<exists>e. build_model_p01 config_all_on ''ex-gwt-mt3dms-p01a'' 0 1 0 7 = Inl e) \<and>
   map_option (\<lambda>sim. adv_scheme (sim_gwt sim))
     (built_sim_p01 (build_model_p01 config_all_on ''ex-gwt-mt3dms-p01a'' 0 1 0 (- 1))) = Some ''TVD'' \<and>
   (\<nexists>e. build_model_p01 config_all_on ''ex-gwt-mt3dms-p01d'' 10 5 0.002 0 = Inl e)"
proof -
  have on: "buildModel config_all_on"
    by (simp add: config_all_on_def)
  have "(''ex-gwt-mt3dms-p01d'', \<lparr>dispersivity = 10, retardation = 5, decay = 0.002\<rparr>)
          \<in> set parameters_p01"
    by (simp add: parameters_p01_def)
  with on advection_scheme_selection_p01 [of 7 config_all_on "''ex-gwt-mt3dms-p01a''" 0 1 0]
  show ?thesis
    by fastforce
qed

text \<open>
  Claim C1, as amended. The claim states that the distribution coefficient equals
  \<open>(retardation - 1) * porosity / bulk_density\<close> whenever \<open>retardation \<ge> 1\<close> and that
  no coefficient is computed when \<open>retardation = 1\<close>. At \<open>retardation = 1\<close> the MODFLOW 6
  description receives the placeholder 1.0, not the formula's value 0, and the MT3DMS
  description still receives the formula's value.

  What holds, for every retardation (the code has no test \<open>retardation \<ge> 1\<close>): the MT3DMS
  coefficient \<^verbatim>\<open>sp1\<close> is the formula's value. For \<open>retardation \<noteq> 1\<close> sorption is enabled
  in both descriptions (\<^verbatim>\<open>isothm = 1\<close>, \<^verbatim>\<open>sorption = "linear"\<close>) and the MODFLOW 6
  coefficient \<^verbatim>\<open>distcoef\<close> is the formula's value too. For \<open>retardation = 1\<close> sorption is
  disabled in both (\<^verbatim>\<open>isothm = 0\<close>, \<^verbatim>\<open>sorption = None\<close>), \<^verbatim>\<open>sp1\<close> is 0 and
  \<^verbatim>\<open>distcoef\<close> is 1. Porosity and bulk density are the module constants \<^verbatim>\<open>prsity\<close> and
  \<^verbatim>\<open>rhob\<close>, which both descriptions receive.
\<close>

theorem distribution_coefficient_p01:
  assumes "build_model_p01 cfg name al r d m = Inr (Some (mf, mt, sim))"
  shows "sp1 (mt_rct mt) = (r - 1) * prsity_p01 / rhob_p01 \<and>
         btn_prsity (mt_btn mt) = prsity_p01 \<and> rct_rhob (mt_rct mt) = rhob_p01 \<and>
         mst_porosity (gwt_mst (sim_gwt sim)) = prsity_p01 \<and>
         bulk_density (gwt_mst (sim_gwt sim)) = rhob_p01 \<and>
         (r \<noteq> 1 \<longrightarrow>
            isothm (mt_rct mt) = 1 \<and>
            sorption (gwt_mst (sim_gwt sim)) = Some ''linear'' \<and>
            distcoef (gwt_mst (sim_gwt sim)) = (r - 1) * prsity_p01 / rhob_p01) \<and>
         (r = 1 \<longrightarrow>
            isothm (mt_rct mt) = 0 \<and> sp1 (mt_rct mt) = 0 \<and>
            sorption (gwt_mst (sim_gwt sim)) = None \<and>
            distcoef (gwt_mst (sim_gwt sim)) = 1)"
proof -
  from build_model_p01_Some [OF assms]
  obtain scheme where mt: "mt = build_mt_p01 cfg name mf al r d m"
    and gwt: "sim_gwt sim = build_gwt_p01 al r d scheme"
    by blast
  have rct: "sp1 (mt_rct mt) = (r - 1) * prsity_p01 / rhob_p01"
    "isothm (mt_rct mt) = (if r = 1 then 0 else 1)"
    "btn_prsity (mt_btn mt) = prsity_p01" "rct_rhob (mt_rct mt) = rhob_p01"
    by (simp_all add: mt build_mt_p01_def)
  have mst: "distcoef (gwt_mst (sim_gwt sim)) =
               (if r \<noteq> 1 then (r - 1) * prsity_p01 / rhob_p01 else 1)"
    "sorption (gwt_mst (sim_gwt sim)) = (if r \<noteq> 1 then Some ''linear'' else None)"
    "mst_porosity (gwt_mst (sim_gwt sim)) = prsity_p01"
    "bulk_density (gwt_mst (sim_gwt sim)) = rhob_p01"
    by (simp_all add: gwt build_gwt_p01_def)
  show ?thesis
    by (simp add: rct mst)
qed

theorem distribution_coefficient_p01_witness:
  "map_option (\<lambda>mt. (isothm (mt_rct mt), sp1 (mt_rct mt)))
     (built_mt_p01 (build_model_p01 config_all_on ''ex-gwt-mt3dms-p01c'' 10 5 0 0)) = Some (1, 4) \<and>
   map_option (\<lambda>sim. (sorption (gwt_mst (sim_gwt sim)), distcoef (gwt_mst (sim_gwt sim))))
     (built_sim_p01 (build_model_p01 config_all_on ''ex-gwt-mt3dms-p01c'' 10 5 0 0))
     = Some (Some ''linear'', 4)"
proof -
  have on: "buildModel config_all_on"
    by (simp add: config_all_on_def)
  obtain mf mt sim where
    b: "build_model_p01 config_all_on ''ex-gwt-mt3dms-p01c'' 10 5 0 0 = Inr (Some (mf, mt, sim))"
    by (simp add: build_model_p01_on [OF on] advection_scheme_p01_cases)
  from distribution_coefficient_p01 [OF b] show ?thesis
    by (simp add: b built_mt_p01_def built_sim_p01_def p01_consts)
qed

theorem distribution_coefficient_p01_counterexample:
  "map_option (\<lambda>sim. (sorption (gwt_mst (sim_gwt sim)), distcoef (gwt_mst (sim_gwt sim))))
     (built_sim_p01 (build_model_p01 config_all_on ''ex-gwt-mt3dms-p01a'' 0 1 0 0))
     = Some (None, 1) \<and>
   map_option (\<lambda>mt. (isothm (mt_rct mt), sp1 (mt_rct mt)))
     (built_mt_p01 (build_model_p01 config_all_on ''ex-gwt-mt3dms-p01a'' 0 1 0 0)) = Some (0, 0) \<and>
   (1::real) \<ge> 1 \<and> (1 - 1) * prsity_p01 / rhob_p01 \<noteq> 1"
proof -
  have on: "buildModel config_all_on"
    by (simp add: config_all_on_def)
  show ?thesis
    by (simp add: build_model_p01_on [OF on] advection_scheme_p01_cases built_mt_p01_def
        built_sim_p01_def build_mt_p01_def build_gwt_p01_def p01_consts)
qed

text \<open>
  Claim C6. Two parameter sets that differ only in \<^verbatim>\<open>decay\<close> give the same outcome of
  \<^verbatim>\<open>build_model\<close> (the same exception, the same \<^verbatim>\<open>None\<close>), and when descriptions are
  built they agree everywhere but in \<^verbatim>\<open>ireact\<close>, \<^verbatim>\<open>rc1\<close>, \<^verbatim>\<open>rc2\<close> of the MT3DMS reaction
  package and \<^verbatim>\<open>first_order_decay\<close>, \<^verbatim>\<open>decay\<close>, \<^verbatim>\<open>decay_sorbed\<close> of the MODFLOW 6 mass
  storage package; in particular the distribution coefficients are the same.
\<close>

theorem decay_frame_p01:
  "rel_sum (=) (rel_option same_but_decay_p01)
     (build_model_p01 cfg name al r d1 m) (build_model_p01 cfg name al r d2 m)"
proof (cases "buildModel cfg")
  case False
  then show ?thesis
    by (simp add: build_model_p01_off)
next
  case True
  show ?thesis
  proof (cases "advection_scheme_p01 m")
    case (Inl e)
    then show ?thesis
      by (simp add: build_model_p01_on [OF True])
  next
    case (Inr scheme)
    then show ?thesis
      by (simp add: build_model_p01_on [OF True] build_mt_p01_def build_gwt_p01_def)
  qed
qed

theorem decay_frame_p01_witness:
  "rel_sum (=) (rel_option same_but_decay_p01)
     (build_model_p01 config_all_on ''ex-gwt-mt3dms-p01d'' 10 5 0 0)
     (build_model_p01 config_all_on ''ex-gwt-mt3dms-p01d'' 10 5 0.002 0) \<and>
   map_option (\<lambda>mt. (ireact (mt_rct mt), rc1 (mt_rct mt), rc2 (mt_rct mt), sp1 (mt_rct mt)))
     (built_mt_p01 (build_model_p01 config_all_on ''ex-gwt-mt3dms-p01d'' 10 5 0 0))
     = Some (0, 0, 0, 4) \<and>
   map_option (\<lambda>mt. (ireact (mt_rct mt), rc1 (mt_rct mt), rc2 (mt_rct mt), sp1 (mt_rct mt)))
     (built_mt_p01 (build_model_p01 config_all_on ''ex-gwt-mt3dms-p01d'' 10 5 0.002 0))
     = Some (1, 0.002, 0.002, 4)"
proof -
  have on: "buildModel config_all_on"
    by (simp add: config_all_on_def)
  have "map_option (\<lambda>mt. (ireact (mt_rct mt), rc1 (mt_rct mt), rc2 (mt_rct mt), sp1 (mt_rct mt)))
          (built_mt_p01 (build_model_p01 config_all_on ''ex-gwt-mt3dms-p01d'' 10 5 d 0))
        = Some (if d \<noteq> 0 then 1 else 0, if d \<noteq> 0 then d else 0, if d \<noteq> 0 then d else 0, 4)"
    for d
    by (simp add: build_model_p01_on [OF on] advection_scheme_p01_cases built_mt_p01_def
        build_mt_p01_def p01_consts)
  from this [of 0] this [of "0.002"]
    decay_frame_p01 [of config_all_on "''ex-gwt-mt3dms-p01d''" 10 5 0 0 "0.002"]
  show ?thesis
    by simp
qed

section \<open>Problem 1: the scenario\<close>

lemma write_model_p01_trace:
  "write_model_p01 cfg mf mt sim tr =
     tr @ (if writeModel cfg then [Write (Mf2005 mf), Write (Mt3d mt), Write (Mf6 sim)] else [])"
  by (simp add: write_model_p01_def)

lemma run_model_p01_trace:
  "run_model_p01 cfg w mf mt sim tr =
     (if runModel cfg then
        (let r = execute w (tr @ [Run (Mf2005 mf), Run (Mt3d mt)]) (Mf6 sim)
         in (fst r, tr @ [Run (Mf2005 mf), Run (Mt3d mt), Run (Mf6 sim)]
                       @ (if fst r then [] else [Print (snd r)])))
      else (True, tr))"
  by (simp add: run_model_p01_def Let_def case_prod_beta)

lemma run_model_p01_no_plot:
  "filter is_plot_event (snd (run_model_p01 cfg w mf mt sim tr)) = filter is_plot_event tr"
  by (simp add: run_model_p01_trace Let_def)

lemma write_model_p01_no_plot:
  "filter is_plot_event (write_model_p01 cfg mf mt sim tr) = filter is_plot_event tr"
  by (simp add: write_model_p01_trace)

lemma plot_results_p01_off:
  "\<not> plotModel cfg \<Longrightarrow> plot_results_p01 cfg w mt sim idx tr = (Inr (), tr)"
  by (simp add: plot_results_p01_def)

section \<open>Problem 2: the scenario\<close>

lemma build_mf6gwf_p02_trace:
  "snd (build_mf6gwf_p02 cfg f tr) = tr @ [Print (''Building mf6gwf model...'' @ f)]"
  unfolding build_mf6gwf_p02_def Let_def by (rule snd_conv)

lemma build_mf6gwt_p02_trace:
  "snd (build_mf6gwt_p02 cfg f kw tr) = tr @ [Print (''Building mf6gwt model...'' @ f)]"
  unfolding build_mf6gwt_p02_def Let_def by (rule snd_conv)

lemma build_mf2005_p02_trace:
  "snd (build_mf2005_p02 cfg f tr) = tr @ [Print (''Building mf2005 model...'' @ f)]"
  unfolding build_mf2005_p02_def by (rule snd_conv)

lemma build_mt3dms_p02_trace:
  "snd (build_mt3dms_p02 cfg f mf kw tr) = tr @ [Print (''Building mt3dms model...'' @ f)]"
proof (cases "select_isotherm_p02 kw")
  case None
  then show ?thesis
    by (simp add: build_mt3dms_p02_def)
next
  case (Some t)
  then show ?thesis
    unfolding build_mt3dms_p02_def Let_def by (cases t) (simp del: append.simps)
qed

lemma build_model_p02_trace:
  "snd (build_model_p02 cfg key kw tr) =
     tr @ (if buildModel cfg
           then [Print (''Building mf6gwf model...'' @ key),
                 Print (''Building mf6gwt model...'' @ key),
                 Print (''Building mf2005 model...'' @ key),
                 Print (''Building mt3dms model...'' @ key)]
           else [])"
proof (cases "buildModel cfg")
  case False
  then show ?thesis
    by (simp add: build_model_p02_def)
next
  case True
  have "snd (build_model_p02 cfg key kw tr) =
          snd (build_mt3dms_p02 cfg key (fst (build_mf2005_p02 cfg key
                 (snd (build_mf6gwt_p02 cfg key kw (snd (build_mf6gwf_p02 cfg key tr)))))) kw
               (snd (build_mf2005_p02 cfg key
                 (snd (build_mf6gwt_p02 cfg key kw (snd (build_mf6gwf_p02 cfg key tr)))))))"
    using True
    by (simp add: build_model_p02_def Let_def case_prod_beta split: sum.splits)
  with True show ?thesis
    by (simp only: build_mt3dms_p02_trace build_mf2005_p02_trace build_mf6gwt_p02_trace
        build_mf6gwf_p02_trace if_True append_assoc append.simps)
qed

lemma build_model_p02_no_plot:
  "filter is_plot_event (snd (build_model_p02 cfg key kw tr)) = filter is_plot_event tr"
  by (simp add: build_model_p02_trace)

lemma write_model_p02_no_plot:
  "filter is_plot_event (snd (write_model_p02 cfg sims tr)) = filter is_plot_event tr"
  by (simp add: write_model_p02_def split: option.splits prod.splits)

lemma run_solver_p02_trace:
  "run_solver_p02 w announce m tr =
     (let r = execute2 w (tr @ [Print announce]) m
      in (fst r, tr @ [Print announce, Run m] @ (if fst r then [] else [Print (snd r)])))"
  by (simp add: run_solver_p02_def Let_def case_prod_beta)

lemma run_solver_p02_no_plot:
  "filter is_plot_event (snd (run_solver_p02 w announce m tr)) = filter is_plot_event tr"
  by (simp add: run_solver_p02_trace Let_def)

lemma run_model_p02_no_plot:
  "filter is_plot_event (snd (run_model_p02 cfg w sims tr)) = filter is_plot_event tr"
proof (cases "runModel cfg")
  case False
  then show ?thesis
    by (simp add: run_model_p02_def)
next
  case True
  show ?thesis
  proof (cases sims)
    case None
    with True show ?thesis
      by (simp add: run_model_p02_def)
  next
    case (Some s)
    obtain gwf gwt mf mt where s: "s = (gwf, gwt, mf, mt)"
      by (cases s) auto
    show ?thesis
      using True
      by (simp add: run_model_p02_def Some s Let_def case_prod_beta run_solver_p02_no_plot)
  qed
qed

text \<open>
  Claim C3. When \<^verbatim>\<open>run_model\<close> returns \<^verbatim>\<open>False\<close>, \<^verbatim>\<open>scenario\<close> ends there: its trace is the
  one \<^verbatim>\<open>run_model\<close> left, which holds no drawing event and no saved figure beyond those
  present before the scenario started. This holds for \<^verbatim>\<open>scenario\<close> of problem 1
  (\<^verbatim>\<open>plot_results\<close>) and of problem 2 (\<^verbatim>\<open>plot_results_ct\<close>).
\<close>

theorem no_plot_after_failed_run:
  "(py_index parameters_p01 idx = Inr (key, p) \<and>
    build_model_p01 cfg key (dispersivity p) (retardation p) (decay p) 0
      = Inr (Some (mf, mt, sim)) \<and>
    run_model_p01 cfg w mf mt sim (write_model_p01 cfg mf mt sim tr) = (False, tr') \<longrightarrow>
      scenario_p01 cfg w idx tr = (Inr (), tr') \<and>
      filter is_plot_event tr' = filter is_plot_event tr) \<and>
   (py_index parameters_p02 idx = Inr (key2, kw) \<and>
    build_model_p02 cfg key2 kw tr2 = (Inr sims, tr2a) \<and>
    write_model_p02 cfg sims tr2a = (Inr u, tr2b) \<and>
    run_model_p02 cfg w2 sims tr2b = (Inr False, tr2') \<longrightarrow>
      scenario_p02 cfg w2 idx tr2 = (Inr (), tr2') \<and>
      filter is_plot_event tr2' = filter is_plot_event tr2)"
proof (intro conjI impI; elim conjE)
  assume i: "py_index parameters_p01 idx = Inr (key, p)"
    and b: "build_model_p01 cfg key (dispersivity p) (retardation p) (decay p) 0
              = Inr (Some (mf, mt, sim))"
    and r: "run_model_p01 cfg w mf mt sim (write_model_p01 cfg mf mt sim tr) = (False, tr')"
  show "scenario_p01 cfg w idx tr = (Inr (), tr')"
    by (simp add: scenario_p01_def i b r)
  have "filter is_plot_event tr' =
          filter is_plot_event
            (snd (run_model_p01 cfg w mf mt sim (write_model_p01 cfg mf mt sim tr)))"
    by (simp add: r)
  also have "\<dots> = filter is_plot_event tr"
    by (simp only: run_model_p01_no_plot write_model_p01_no_plot)
  finally show "filter is_plot_event tr' = filter is_plot_event tr" .
next
  assume i: "py_index parameters_p02 idx = Inr (key2, kw)"
    and b: "build_model_p02 cfg key2 kw tr2 = (Inr sims, tr2a)"
    and wr: "write_model_p02 cfg sims tr2a = (Inr u, tr2b)"
    and r: "run_model_p02 cfg w2 sims tr2b = (Inr False, tr2')"
  show "scenario_p02 cfg w2 idx tr2 = (Inr (), tr2')"
    by (simp add: scenario_p02_def i b wr r)
  have "filter is_plot_event tr2' = filter is_plot_event (snd (run_model_p02 cfg w2 sims tr2b))"
    by (simp add: r)
  also have "\<dots> = filter is_plot_event (snd (write_model_p02 cfg sims tr2a))"
    by (simp add: run_model_p02_no_plot wr)
  also have "\<dots> = filter is_plot_event (snd (build_model_p02 cfg key2 kw tr2))"
    by (simp add: write_model_p02_no_plot b)
  also have "\<dots> = filter is_plot_event tr2"
    by (rule build_model_p02_no_plot)
  finally show "filter is_plot_event tr2' = filter is_plot_event tr2" .
qed

lemma py_index_parameters_p01_0:
  "py_index parameters_p01 0
     = Inr (''ex-gwt-mt3dms-p01a'', \<lparr>dispersivity = 0, retardation = 1, decay = 0\<rparr>)"
  by (simp add: py_index_def parameters_p01_def)

lemma build_mt3dms_p02_result:
  "fst (build_mt3dms_p02 cfg f mf kw tr) = Inl e \<longleftrightarrow>
     select_isotherm_p02 kw = None \<and> e = UnboundLocalError"
proof (cases "select_isotherm_p02 kw")
  case None
  then show ?thesis
    by (auto simp add: build_mt3dms_p02_def)
next
  case (Some t)
  then show ?thesis
    unfolding build_mt3dms_p02_def Let_def by (cases t) simp
qed

lemma build_model_p02_result:
  assumes "buildModel cfg" and "select_isotherm_p02 kw \<noteq> None"
  shows "\<exists>gwf gwt mf mt. fst (build_model_p02 cfg key kw tr) = Inr (Some (gwf, gwt, mf, mt))"
proof -
  let ?mf = "fst (build_mf2005_p02 cfg key
                 (snd (build_mf6gwt_p02 cfg key kw (snd (build_mf6gwf_p02 cfg key tr)))))"
  let ?tr = "snd (build_mf2005_p02 cfg key
                 (snd (build_mf6gwt_p02 cfg key kw (snd (build_mf6gwf_p02 cfg key tr)))))"
  obtain r tr4 where m: "build_mt3dms_p02 cfg key ?mf kw ?tr = (r, tr4)"
    by (cases "build_mt3dms_p02 cfg key ?mf kw ?tr")
  have "\<nexists>e. r = Inl e"
    using build_mt3dms_p02_result [of cfg key ?mf kw ?tr] assms(2) m by auto
  then obtain mt where "r = Inr mt"
    by (cases r) auto
  with m assms(1) show ?thesis
    by (simp add: build_model_p02_def Let_def case_prod_beta)
qed

theorem no_plot_after_failed_run_witness:
  "fst (scenario_p01 config_all_on world_mf6_fails_p01 0 []) = Inr () \<and>
   filter is_plot_event (snd (scenario_p01 config_all_on world_mf6_fails_p01 0 [])) = [] \<and>
   fst (scenario_p02 config_all_on world_mt3dms_fails_p02 0 []) = Inr () \<and>
   filter is_plot_event (snd (scenario_p02 config_all_on world_mt3dms_fails_p02 0 [])) = []"
proof -
  let ?cfg = config_all_on
  have on: "buildModel ?cfg" "runModel ?cfg"
    by (simp_all add: config_all_on_def)
  obtain mf mt sim where
    b: "build_model_p01 ?cfg ''ex-gwt-mt3dms-p01a''
          (dispersivity \<lparr>dispersivity = 0, retardation = 1, decay = 0\<rparr>)
          (retardation \<lparr>dispersivity = 0, retardation = 1, decay = 0\<rparr>)
          (decay \<lparr>dispersivity = 0, retardation = 1, decay = 0\<rparr>) 0 = Inr (Some (mf, mt, sim))"
    by (simp add: build_model_p01_on [OF on(1)] advection_scheme_p01_cases)
  obtain tr' where
    r: "run_model_p01 ?cfg world_mf6_fails_p01 mf mt sim (write_model_p01 ?cfg mf mt sim [])
          = (False, tr')"
    by (simp add: run_model_p01_trace on Let_def world_mf6_fails_p01_def)
  define kw where
    "kw = no_params_p02\<lparr>kw_sorption := Some ''freundlich'', kw_Kf := Some 0.3, kw_a := Some 0.7\<rparr>"
  have i2: "py_index parameters_p02 0 = Inr (''ex-gwt-mt3dms-p02a'', kw)"
    by (simp add: py_index_def parameters_p02_def kw_def)
  have "select_isotherm_p02 kw \<noteq> None"
    by (simp add: select_isotherm_p02_def kw_def no_params_p02_def)
  from build_model_p02_result [OF on(1) this, of "''ex-gwt-mt3dms-p02a''" "[]"]
  obtain gwf gwt mf2 mt2 tr2a where
    b2: "build_model_p02 ?cfg ''ex-gwt-mt3dms-p02a'' kw [] = (Inr (Some (gwf, gwt, mf2, mt2)), tr2a)"
    by (cases "build_model_p02 ?cfg ''ex-gwt-mt3dms-p02a'' kw []") auto
  obtain tr2b where
    w2: "write_model_p02 ?cfg (Some (gwf, gwt, mf2, mt2)) tr2a = (Inr (), tr2b)"
    by (simp add: write_model_p02_def config_all_on_def)
  obtain tr2' where
    r2: "run_model_p02 ?cfg world_mt3dms_fails_p02 (Some (gwf, gwt, mf2, mt2)) tr2b
           = (Inr False, tr2')"
    by (simp add: run_model_p02_def on run_solver_p02_trace Let_def world_mt3dms_fails_p02_def)
  from no_plot_after_failed_run
    [of 0 "''ex-gwt-mt3dms-p01a''" "\<lparr>dispersivity = 0, retardation = 1, decay = 0\<rparr>"
        ?cfg mf mt sim world_mf6_fails_p01 "[]" tr' "''ex-gwt-mt3dms-p02a''" kw "[]"
        "Some (gwf, gwt, mf2, mt2)" tr2a "()" tr2b world_mt3dms_fails_p02 tr2']
    py_index_parameters_p01_0 b r i2 b2 w2 r2
  show ?thesis
    by simp
qed

section \<open>Running the solvers\<close>

text \<open>
  Claim C2, evaluated where the code departs from it. In problem 1 the MODFLOW-2005 run
  and the MT3DMS run fail, each with a captured text, and the MODFLOW 6 run succeeds:
  \<^verbatim>\<open>run_model\<close> returns \<^verbatim>\<open>True\<close> and prints nothing. In problem 2 the first three runs
  fail and the MT3DMS run succeeds: the three texts are printed, and \<^verbatim>\<open>run_model\<close> still
  returns \<^verbatim>\<open>True\<close>.
\<close>

theorem run_model_returns_last_flag:
  "execute world_only_mf6_ok_p01 tr (Mf2005 mf) = (False, ''mf2005 failed'') \<and>
   execute world_only_mf6_ok_p01 (tr @ [Run (Mf2005 mf)]) (Mt3d mt) = (False, ''mt3dms failed'') \<and>
   run_model_p01 config_all_on world_only_mf6_ok_p01 mf mt sim tr
     = (True, tr @ [Run (Mf2005 mf), Run (Mt3d mt), Run (Mf6 sim)]) \<and>
   run_model_p02 config_all_on world_only_mt3dms_ok_p02 (Some (gwf, gwt, mf2, mt2)) tr2
     = (Inr True,
        tr2 @ [Print ''Running mf6gwf...'', Run (Gwf gwf), Print ''failed'',
               Print ''Running mf6gwt...'', Run (Gwt gwt), Print ''failed'',
               Print ''Running mf2005...'', Run (Mf2005' mf2), Print ''failed'',
               Print ''Running mt3dms...'', Run (Mt3dms' mt2)])"
proof (intro conjI)
  have on: "runModel config_all_on"
    by (simp add: config_all_on_def)
  show "execute world_only_mf6_ok_p01 tr (Mf2005 mf) = (False, ''mf2005 failed'')"
    by (simp add: world_only_mf6_ok_p01_def)
  show "execute world_only_mf6_ok_p01 (tr @ [Run (Mf2005 mf)]) (Mt3d mt)
          = (False, ''mt3dms failed'')"
    by (simp add: world_only_mf6_ok_p01_def)
  show "run_model_p01 config_all_on world_only_mf6_ok_p01 mf mt sim tr
          = (True, tr @ [Run (Mf2005 mf), Run (Mt3d mt), Run (Mf6 sim)])"
    by (simp add: run_model_p01_trace on Let_def world_only_mf6_ok_p01_def)
  show "run_model_p02 config_all_on world_only_mt3dms_ok_p02 (Some (gwf, gwt, mf2, mt2)) tr2
     = (Inr True,
        tr2 @ [Print ''Running mf6gwf...'', Run (Gwf gwf), Print ''failed'',
               Print ''Running mf6gwt...'', Run (Gwt gwt), Print ''failed'',
               Print ''Running mf2005...'', Run (Mf2005' mf2), Print ''failed'',
               Print ''Running mt3dms...'', Run (Mt3dms' mt2)])"
    by (simp add: run_model_p02_def on run_solver_p02_trace Let_def
        world_only_mt3dms_ok_p02_def)
qed

section \<open>Problem 2: the choice of the sorption model\<close>

lemma select_isotherm_p02_cases:
  "select_isotherm_p02 kw =
     (case kw_Kl kw of
        Some Kl \<Rightarrow> Some (3, Kl, kw_S kw)
      | None \<Rightarrow>
         (case kw_Kf kw of
            Some Kf \<Rightarrow> Some (2, Kf, kw_a kw)
          | None \<Rightarrow>
             (case kw_beta kw of
                Some beta \<Rightarrow> Some (4, distribution_coefficient_p02, Some beta)
              | None \<Rightarrow> None)))"
  by (simp add: select_isotherm_p02_def Let_def split: option.splits)

lemma built_rct_p02_select:
  "built_rct_p02 (build_mt3dms_p02 cfg f mf kw tr) = select_isotherm_p02 kw"
proof (cases "select_isotherm_p02 kw")
  case None
  then show ?thesis
    by (simp add: built_rct_p02_def build_mt3dms_p02_def)
next
  case (Some t)
  then show ?thesis
    unfolding built_rct_p02_def build_mt3dms_p02_def Let_def by (cases t) simp
qed

lemma build_mf6gwt_p02_mst:
  "t_mst (fst (build_mf6gwt_p02 cfg f kw tr)) =
     \<lparr>mst2_porosity = porosity_p02, mst2_bulk_density = bulk_density_p02,
      mst2_sorption = kw_sorption kw,
      mst2_distcoef = (case kw_Kl kw of Some Kl \<Rightarrow> Some Kl | None \<Rightarrow> kw_Kf kw),
      mst2_sp2 = (case kw_S kw of Some S \<Rightarrow> Some S | None \<Rightarrow> kw_a kw)\<rparr>"
  unfolding build_mf6gwt_p02_def Let_def by (simp split: option.splits)

lemma build_mf6gwt_p02_ist:
  "t_ist (fst (build_mf6gwt_p02 cfg f kw tr)) =
     (case kw_beta kw of
        None \<Rightarrow> None
      | Some beta \<Rightarrow> if beta > 0 then Some (bulk_density_p02, beta) else None)"
  unfolding build_mf6gwt_p02_def Let_def by simp

lemma build_model_p02_error:
  "(\<exists>e. fst (build_model_p02 cfg key kw tr) = Inl e) \<longleftrightarrow>
     buildModel cfg \<and> select_isotherm_p02 kw = None"
proof (cases "buildModel cfg")
  case False
  then show ?thesis
    by (simp add: build_model_p02_def)
next
  case True
  let ?mf = "fst (build_mf2005_p02 cfg key
                 (snd (build_mf6gwt_p02 cfg key kw (snd (build_mf6gwf_p02 cfg key tr)))))"
  let ?tr = "snd (build_mf2005_p02 cfg key
                 (snd (build_mf6gwt_p02 cfg key kw (snd (build_mf6gwf_p02 cfg key tr)))))"
  obtain r tr4 where m: "build_mt3dms_p02 cfg key ?mf kw ?tr = (r, tr4)"
    by (cases "build_mt3dms_p02 cfg key ?mf kw ?tr")
  have "(\<exists>e. r = Inl e) \<longleftrightarrow> select_isotherm_p02 kw = None"
    using build_mt3dms_p02_result [of cfg key ?mf kw ?tr] m by auto
  moreover have "(\<exists>e. fst (build_model_p02 cfg key kw tr) = Inl e) \<longleftrightarrow> (\<exists>e. r = Inl e)"
    using True m by (cases r) (simp_all add: build_model_p02_def Let_def case_prod_beta)
  ultimately show ?thesis
    using True by simp
qed

text \<open>
  Claim C4, as amended. The claim lets the last-checked branch determine the model and the
  coefficients in both builders. That is so in \<^verbatim>\<open>build_mt3dms\<close> only.

  What holds: neither builder checks that the parameters of a single model are supplied.
  In \<^verbatim>\<open>build_mt3dms\<close> the tests run in the order \<^verbatim>\<open>beta\<close>, \<^verbatim>\<open>Kf\<close>, \<^verbatim>\<open>Kl\<close> and the last
  one that fires sets \<^verbatim>\<open>isothm\<close>, \<^verbatim>\<open>sp1\<close> and \<^verbatim>\<open>sp2\<close> together (\<^verbatim>\<open>Kl\<close> over \<^verbatim>\<open>Kf\<close> over
  \<^verbatim>\<open>beta\<close>); the builder, and with it \<^verbatim>\<open>build_model\<close>, raises only when none of the three is
  supplied. In \<^verbatim>\<open>build_mf6gwt\<close> no branch selects the model: \<^verbatim>\<open>sorption\<close> is passed on as
  received, \<^verbatim>\<open>distcoef\<close> is \<^verbatim>\<open>Kl\<close> if supplied and else \<^verbatim>\<open>Kf\<close>, \<^verbatim>\<open>sp2\<close> is \<^verbatim>\<open>S\<close> if
  supplied and else \<^verbatim>\<open>a\<close>, each chosen on its own, and a positive \<^verbatim>\<open>beta\<close> adds the
  immobile-domain package whatever else is supplied.
\<close>

theorem sorption_selection_p02:
  "((\<exists>e. fst (build_mt3dms_p02 cfg f mf kw tr) = Inl e) \<longleftrightarrow>
      kw_beta kw = None \<and> kw_Kf kw = None \<and> kw_Kl kw = None) \<and>
   ((\<exists>e. fst (build_model_p02 cfg f kw tr) = Inl e) \<longleftrightarrow>
      buildModel cfg \<and> kw_beta kw = None \<and> kw_Kf kw = None \<and> kw_Kl kw = None) \<and>
   built_rct_p02 (build_mt3dms_p02 cfg f mf kw tr) =
     (case kw_Kl kw of
        Some Kl \<Rightarrow> Some (3, Kl, kw_S kw)
      | None \<Rightarrow>
         (case kw_Kf kw of
            Some Kf \<Rightarrow> Some (2, Kf, kw_a kw)
          | None \<Rightarrow>
             (case kw_beta kw of
                Some beta \<Rightarrow> Some (4, distribution_coefficient_p02, Some beta)
              | None \<Rightarrow> None))) \<and>
   mst2_sorption (t_mst (fst (build_mf6gwt_p02 cfg f kw tr))) = kw_sorption kw \<and>
   mst2_distcoef (t_mst (fst (build_mf6gwt_p02 cfg f kw tr))) =
     (case kw_Kl kw of Some Kl \<Rightarrow> Some Kl | None \<Rightarrow> kw_Kf kw) \<and>
   mst2_sp2 (t_mst (fst (build_mf6gwt_p02 cfg f kw tr))) =
     (case kw_S kw of Some S \<Rightarrow> Some S | None \<Rightarrow> kw_a kw) \<and>
   t_ist (fst (build_mf6gwt_p02 cfg f kw tr)) =
     (case kw_beta kw of
        None \<Rightarrow> None
      | Some beta \<Rightarrow> if beta > 0 then Some (bulk_density_p02, beta) else None)"
proof -
  have none: "select_isotherm_p02 kw = None \<longleftrightarrow>
      kw_beta kw = None \<and> kw_Kf kw = None \<and> kw_Kl kw = None"
    by (simp add: select_isotherm_p02_cases split: option.splits)
  have "(\<exists>e. fst (build_mt3dms_p02 cfg f mf kw tr) = Inl e) \<longleftrightarrow> select_isotherm_p02 kw = None"
    by (simp add: build_mt3dms_p02_result)
  then have a: "(\<exists>e. fst (build_mt3dms_p02 cfg f mf kw tr) = Inl e) \<longleftrightarrow>
      kw_beta kw = None \<and> kw_Kf kw = None \<and> kw_Kl kw = None"
    by (simp only: none)
  have b: "(\<exists>e. fst (build_model_p02 cfg f kw tr) = Inl e) \<longleftrightarrow>
      buildModel cfg \<and> kw_beta kw = None \<and> kw_Kf kw = None \<and> kw_Kl kw = None"
    by (simp only: build_model_p02_error none)
  show ?thesis
    by (intro conjI a b)
      (simp_all only: built_rct_p02_select select_isotherm_p02_cases build_mf6gwt_p02_mst
        build_mf6gwt_p02_ist Gwtmst_p02.simps)
qed

theorem sorption_selection_p02_counterexample:
  "mst2_sorption (t_mst (fst (build_mf6gwt_p02 config_all_on ''s'' kw_conflict_p02 [])))
     = Some ''freundlich'' \<and>
   t_ist (fst (build_mf6gwt_p02 config_all_on ''s'' kw_conflict_p02 [])) \<noteq> None \<and>
   built_rct_p02 (build_mt3dms_p02 config_all_on ''s'' (fst (build_mf2005_p02 config_all_on ''s'' []))
        kw_conflict_p02 [])
     = Some (3, 100, Some 0.003) \<and>
   mst2_distcoef (t_mst (fst (build_mf6gwt_p02 config_all_on ''s'' kw_mixed_p02 [])))
     = kw_Kl kw_mixed_p02 \<and>
   mst2_sp2 (t_mst (fst (build_mf6gwt_p02 config_all_on ''s'' kw_mixed_p02 [])))
     = kw_a kw_mixed_p02 \<and>
   built_rct_p02 (build_mt3dms_p02 config_all_on ''s'' (fst (build_mf2005_p02 config_all_on ''s'' []))
        kw_mixed_p02 [])
     = Some (3, 100, None)"
  by (simp add: build_mf6gwt_p02_mst build_mf6gwt_p02_ist built_rct_p02_select
      select_isotherm_p02_cases kw_conflict_p02_def kw_mixed_p02_def)

section \<open>Problem 1: the phases of a scenario\<close>

lemma plot_event_not_write_run:
  "is_plot_event e \<Longrightarrow> \<not> is_write e \<and> \<not> is_run e"
  by (cases e) simp_all

lemma Bex_append3:
  "(\<exists>e \<in> set (xs @ ys @ zs). P e) \<longleftrightarrow>
     (\<exists>e \<in> set xs. P e) \<or> (\<exists>e \<in> set ys. P e) \<or> (\<exists>e \<in> set zs. P e)"
  by auto

lemma scenario_p01_built:
  assumes "py_index parameters_p01 idx = Inr (key, p)"
    and "build_model_p01 cfg key (dispersivity p) (retardation p) (decay p) 0
           = Inr (Some (mf, mt, sim))"
  shows "scenario_p01 cfg w idx tr =
           (let r = run_model_p01 cfg w mf mt sim (write_model_p01 cfg mf mt sim tr)
            in if fst r then plot_results_p01 cfg w mt sim idx (snd r) else (Inr (), snd r))"
  by (simp add: scenario_p01_def assms Let_def case_prod_beta)

lemma run_model_p01_new:
  "\<exists>new. snd (run_model_p01 cfg w mf mt sim tr) = tr @ new \<and>
         (\<forall>e \<in> set new. \<not> is_write e \<and> \<not> is_plot_event e) \<and>
         ((\<exists>e \<in> set new. is_run e) \<longleftrightarrow> runModel cfg)"
  by (simp add: run_model_p01_trace Let_def)

lemma plot_results_p01_unread:
  assumes "plotModel cfg"
    and "ucn_mt3d w tr (mt_model_ws mt @ [''MT3D001.UCN'']) = Inl e \<or>
         (\<exists>c. ucn_mt3d w tr (mt_model_ws mt @ [''MT3D001.UCN'']) = Inr c) \<and>
         ucn_mf6 w tr sim = Inl e"
  shows "plot_results_p01 cfg w mt sim idx tr = (Inl e, tr)"
  using assms by (auto simp add: plot_results_p01_def)

lemma plot_results_p01_figure:
  assumes "plotModel cfg"
    and "ucn_mt3d w tr (mt_model_ws mt @ [''MT3D001.UCN'']) = Inr c1"
    and "ucn_mf6 w tr sim = Inr c2"
  shows "\<exists>new. snd (plot_results_p01 cfg w mt sim idx tr) = tr @ New_figure # new \<and>
               (\<forall>e \<in> set new. is_plot_event e)"
  using assms by (simp add: plot_results_p01_def Let_def split: sum.splits)

lemma plot_results_p01_gate:
  "\<exists>new. snd (if s then plot_results_p01 cfg w mt sim idx tr else (Inr (), tr)) = tr @ new \<and>
         (\<forall>e \<in> set new. is_plot_event e) \<and>
         (new \<noteq> [] \<longleftrightarrow>
            s \<and> plotModel cfg \<and>
            (\<exists>c. ucn_mt3d w tr (mt_model_ws mt @ [''MT3D001.UCN'']) = Inr c) \<and>
            (\<exists>c. ucn_mf6 w tr sim = Inr c))"
proof (cases "s \<and> plotModel cfg")
  case False
  then show ?thesis
    by (auto simp add: plot_results_p01_off)
next
  case on: True
  show ?thesis
  proof (cases "ucn_mt3d w tr (mt_model_ws mt @ [''MT3D001.UCN''])")
    case (Inl e)
    with on plot_results_p01_unread [of cfg w tr mt e sim idx] show ?thesis
      by simp
  next
    case c1: (Inr c1)
    show ?thesis
    proof (cases "ucn_mf6 w tr sim")
      case (Inl e)
      with on c1 plot_results_p01_unread [of cfg w tr mt e sim idx] show ?thesis
        by simp
    next
      case (Inr c2)
      from on have "plotModel cfg"
        by simp
      from plot_results_p01_figure [OF this c1 Inr, of idx]
      obtain new where "snd (plot_results_p01 cfg w mt sim idx tr) = tr @ New_figure # new"
        and "\<forall>e \<in> set new. is_plot_event e"
        by blast
      with on c1 Inr show ?thesis
        by (intro exI [of _ "New_figure # new"]) simp
    qed
  qed
qed

lemma build_model_p01_Some_iff:
  "(\<exists>b. build_model_p01 cfg name al r d m = Inr (Some b)) \<longleftrightarrow>
     buildModel cfg \<and> (m = 0 \<or> m = - 1)"
proof (cases "buildModel cfg")
  case True
  then show ?thesis
    by (simp add: build_model_p01_on advection_scheme_p01_cases)
next
  case False
  then show ?thesis
    by (simp add: build_model_p01_off)
qed

lemma scenario_p01_events:
  assumes i: "py_index parameters_p01 idx = Inr (key, p)"
    and b: "build_model_p01 cfg key (dispersivity p) (retardation p) (decay p) 0
              = Inr (Some (mf, mt, sim))"
  shows "\<exists>new.
         snd (scenario_p01 cfg w idx tr) = tr @ new \<and>
         ((\<exists>e \<in> set new. is_write e) \<longleftrightarrow> writeModel cfg) \<and>
         ((\<exists>e \<in> set new. is_run e) \<longleftrightarrow> runModel cfg) \<and>
         ((\<exists>e \<in> set new. is_plot_event e) \<longleftrightarrow>
            plotModel cfg \<and>
            fst (run_model_p01 cfg w mf mt sim (write_model_p01 cfg mf mt sim tr)) \<and>
            (\<exists>c. ucn_mt3d w
                   (snd (run_model_p01 cfg w mf mt sim (write_model_p01 cfg mf mt sim tr)))
                   (mt_model_ws mt @ [''MT3D001.UCN'']) = Inr c) \<and>
            (\<exists>c. ucn_mf6 w
                   (snd (run_model_p01 cfg w mf mt sim (write_model_p01 cfg mf mt sim tr)))
                   sim = Inr c))"
proof -
  define tr1 where "tr1 = write_model_p01 cfg mf mt sim tr"
  define ws where
    "ws = (if writeModel cfg then [Write (Mf2005 mf), Write (Mt3d mt), Write (Mf6 sim)] else [])"
  define s where "s = fst (run_model_p01 cfg w mf mt sim tr1)"
  have tr1: "tr1 = tr @ ws"
    by (simp add: tr1_def ws_def write_model_p01_trace)
  from run_model_p01_new [of cfg w mf mt sim tr1]
  obtain rs where rs_all:
    "snd (run_model_p01 cfg w mf mt sim tr1) = tr1 @ rs \<and>
     (\<forall>e \<in> set rs. \<not> is_write e \<and> \<not> is_plot_event e) \<and>
     ((\<exists>e \<in> set rs. is_run e) \<longleftrightarrow> runModel cfg)" ..
  from rs_all have rs: "snd (run_model_p01 cfg w mf mt sim tr1) = tr1 @ rs"
    by (rule conjunct1)
  from rs_all have rs_kind: "\<forall>e \<in> set rs. \<not> is_write e \<and> \<not> is_plot_event e"
    by (rule conjunct1 [OF conjunct2])
  from rs_all have rs_run: "(\<exists>e \<in> set rs. is_run e) \<longleftrightarrow> runModel cfg"
    by (rule conjunct2 [OF conjunct2])
  define tr2 where "tr2 = snd (run_model_p01 cfg w mf mt sim tr1)"
  have tr2: "tr2 = tr1 @ rs"
    by (simp only: tr2_def rs)
  from plot_results_p01_gate [of s cfg w mt sim idx tr2]
  obtain ps where ps_all:
    "snd (if s then plot_results_p01 cfg w mt sim idx tr2 else (Inr (), tr2)) = tr2 @ ps \<and>
     (\<forall>e \<in> set ps. is_plot_event e) \<and>
     (ps \<noteq> [] \<longleftrightarrow>
        s \<and> plotModel cfg \<and>
        (\<exists>c. ucn_mt3d w tr2 (mt_model_ws mt @ [''MT3D001.UCN'']) = Inr c) \<and>
        (\<exists>c. ucn_mf6 w tr2 sim = Inr c))" ..
  from ps_all have
    ps: "snd (if s then plot_results_p01 cfg w mt sim idx tr2 else (Inr (), tr2)) = tr2 @ ps"
    by (rule conjunct1)
  from ps_all have ps_kind: "\<forall>e \<in> set ps. is_plot_event e"
    by (rule conjunct1 [OF conjunct2])
  from ps_all have ps_any: "ps \<noteq> [] \<longleftrightarrow>
        s \<and> plotModel cfg \<and>
        (\<exists>c. ucn_mt3d w tr2 (mt_model_ws mt @ [''MT3D001.UCN'']) = Inr c) \<and>
        (\<exists>c. ucn_mf6 w tr2 sim = Inr c)"
    by (rule conjunct2 [OF conjunct2])
  have "scenario_p01 cfg w idx tr =
          (if s then plot_results_p01 cfg w mt sim idx tr2 else (Inr (), tr2))"
    unfolding scenario_p01_built [OF i b] Let_def s_def tr2_def tr1_def ..
  then have "snd (scenario_p01 cfg w idx tr) = tr2 @ ps"
    by (simp only: ps)
  then have sc: "snd (scenario_p01 cfg w idx tr) = tr @ (ws @ rs @ ps)"
    by (simp add: tr2 tr1)
  have w_ws: "(\<exists>e \<in> set ws. is_write e) \<longleftrightarrow> writeModel cfg"
    and r_ws: "\<not> (\<exists>e \<in> set ws. is_run e)"
    and p_ws: "\<not> (\<exists>e \<in> set ws. is_plot_event e)"
    by (cases "writeModel cfg"; simp add: ws_def)+
  have w_rs: "\<not> (\<exists>e \<in> set rs. is_write e)"
    and p_rs: "\<not> (\<exists>e \<in> set rs. is_plot_event e)"
    using rs_kind by blast+
  have w_ps: "\<not> (\<exists>e \<in> set ps. is_write e)"
    and r_ps: "\<not> (\<exists>e \<in> set ps. is_run e)"
    using ps_kind plot_event_not_write_run by blast+
  have "(\<exists>e \<in> set ps. is_plot_event e) \<longleftrightarrow> ps \<noteq> []"
    using ps_kind by (cases ps) simp_all
  then have p_ps: "(\<exists>e \<in> set ps. is_plot_event e) \<longleftrightarrow>
        s \<and> plotModel cfg \<and>
        (\<exists>c. ucn_mt3d w tr2 (mt_model_ws mt @ [''MT3D001.UCN'']) = Inr c) \<and>
        (\<exists>c. ucn_mf6 w tr2 sim = Inr c)"
    by (simp only: ps_any)
  have wr: "(\<exists>e \<in> set (ws @ rs @ ps). is_write e) \<longleftrightarrow> writeModel cfg"
    by (simp only: Bex_append3 w_ws w_rs w_ps) simp
  have rn: "(\<exists>e \<in> set (ws @ rs @ ps). is_run e) \<longleftrightarrow> runModel cfg"
    by (simp only: Bex_append3 r_ws rs_run r_ps) simp
  have "(\<exists>e \<in> set (ws @ rs @ ps). is_plot_event e) \<longleftrightarrow>
        s \<and> plotModel cfg \<and>
        (\<exists>c. ucn_mt3d w tr2 (mt_model_ws mt @ [''MT3D001.UCN'']) = Inr c) \<and>
        (\<exists>c. ucn_mf6 w tr2 sim = Inr c)"
    by (simp only: Bex_append3 p_ws p_rs p_ps) simp
  then have pl: "(\<exists>e \<in> set (ws @ rs @ ps). is_plot_event e) \<longleftrightarrow>
            plotModel cfg \<and>
            fst (run_model_p01 cfg w mf mt sim (write_model_p01 cfg mf mt sim tr)) \<and>
            (\<exists>c. ucn_mt3d w
                   (snd (run_model_p01 cfg w mf mt sim (write_model_p01 cfg mf mt sim tr)))
                   (mt_model_ws mt @ [''MT3D001.UCN'']) = Inr c) \<and>
            (\<exists>c. ucn_mf6 w
                   (snd (run_model_p01 cfg w mf mt sim (write_model_p01 cfg mf mt sim tr)))
                   sim = Inr c)"
    unfolding s_def tr2_def tr1_def by blast
  show ?thesis
    by (rule exI [of _ "ws @ rs @ ps"]) (intro conjI sc wr rn pl)
qed

lemma scenario_p01_unread:
  assumes i: "py_index parameters_p01 idx = Inr (key, p)"
    and b: "build_model_p01 cfg key (dispersivity p) (retardation p) (decay p) 0
              = Inr (Some (mf, mt, sim))"
    and ran: "run_model_p01 cfg w mf mt sim (write_model_p01 cfg mf mt sim tr) = (True, tr')"
    and "plotModel cfg"
    and "ucn_mt3d w tr' (mt_model_ws mt @ [''MT3D001.UCN'']) = Inl e \<or>
         (\<exists>c. ucn_mt3d w tr' (mt_model_ws mt @ [''MT3D001.UCN'']) = Inr c) \<and>
         ucn_mf6 w tr' sim = Inl e"
  shows "scenario_p01 cfg w idx tr = (Inl e, tr')"
  using plot_results_p01_unread [OF assms(4,5), of idx]
  by (simp add: scenario_p01_built [OF i b] ran)

text \<open>
  Claim C5, as amended. The claim makes each phase run exactly when its own flag is true.
  The plot phase has further gates: the value \<^verbatim>\<open>run_model\<close> returned, and the two solver
  outputs, which \<^verbatim>\<open>plot_results\<close> opens before it creates the figure. And when building is
  off \<^verbatim>\<open>scenario\<close> of problem 1 stops at once, whatever the other flags say.

  What holds in problem 1: \<^verbatim>\<open>build_model\<close> returns simulation objects exactly when
  \<^verbatim>\<open>config.buildModel\<close> is true and \<^verbatim>\<open>mixelm\<close> is 0 or -1 (\<^verbatim>\<open>scenario\<close> passes the default
  0). When building is on and the index names a scenario, the scenario writes exactly when
  \<^verbatim>\<open>config.writeModel\<close> is true and runs the solvers exactly when \<^verbatim>\<open>config.runModel\<close> is
  true. It draws exactly when \<^verbatim>\<open>config.plotModel\<close> is true, \<^verbatim>\<open>run_model\<close> returned
  \<^verbatim>\<open>True\<close> and both solver outputs can be opened; when \<^verbatim>\<open>config.plotModel\<close> is true,
  \<^verbatim>\<open>run_model\<close> returned \<^verbatim>\<open>True\<close> and an output cannot be opened, the scenario ends with the
  reader's exception and draws nothing. A phase whose flag is false leaves the trace as it
  was (\<^verbatim>\<open>run_model\<close> then returns \<^verbatim>\<open>True\<close>), and the later phases go on from there.
\<close>

theorem phases_gated_p01:
  "((\<exists>b. build_model_p01 cfg name al r d m = Inr (Some b)) \<longleftrightarrow>
      buildModel cfg \<and> (m = 0 \<or> m = - 1)) \<and>
   (\<not> writeModel cfg \<longrightarrow> write_model_p01 cfg mf' mt' sim' tr = tr) \<and>
   (\<not> runModel cfg \<longrightarrow> run_model_p01 cfg w mf' mt' sim' tr = (True, tr)) \<and>
   (\<not> plotModel cfg \<longrightarrow> plot_results_p01 cfg w mt' sim' idx tr = (Inr (), tr)) \<and>
   (buildModel cfg \<and> py_index parameters_p01 idx = Inr (key, p) \<longrightarrow>
      (\<exists>mf mt sim new ok tr'.
         build_model_p01 cfg key (dispersivity p) (retardation p) (decay p) 0
           = Inr (Some (mf, mt, sim)) \<and>
         run_model_p01 cfg w mf mt sim (write_model_p01 cfg mf mt sim tr) = (ok, tr') \<and>
         snd (scenario_p01 cfg w idx tr) = tr @ new \<and>
         ((\<exists>e \<in> set new. is_write e) \<longleftrightarrow> writeModel cfg) \<and>
         ((\<exists>e \<in> set new. is_run e) \<longleftrightarrow> runModel cfg) \<and>
         ((\<exists>e \<in> set new. is_plot_event e) \<longleftrightarrow>
            plotModel cfg \<and> ok \<and>
            (\<exists>c. ucn_mt3d w tr' (mt_model_ws mt @ [''MT3D001.UCN'']) = Inr c) \<and>
            (\<exists>c. ucn_mf6 w tr' sim = Inr c)) \<and>
         (\<forall>e. plotModel cfg \<and> ok \<and>
              (ucn_mt3d w tr' (mt_model_ws mt @ [''MT3D001.UCN'']) = Inl e \<or>
               (\<exists>c. ucn_mt3d w tr' (mt_model_ws mt @ [''MT3D001.UCN'']) = Inr c) \<and>
               ucn_mf6 w tr' sim = Inl e) \<longrightarrow>
              scenario_p01 cfg w idx tr = (Inl e, tr'))))"
proof (intro conjI impI)
  show "(\<exists>b. build_model_p01 cfg name al r d m = Inr (Some b)) \<longleftrightarrow>
          buildModel cfg \<and> (m = 0 \<or> m = - 1)"
    by (rule build_model_p01_Some_iff)
  show "write_model_p01 cfg mf' mt' sim' tr = tr" if "\<not> writeModel cfg"
    using that by (simp add: write_model_p01_def)
  show "run_model_p01 cfg w mf' mt' sim' tr = (True, tr)" if "\<not> runModel cfg"
    using that by (simp add: run_model_p01_def)
  show "plot_results_p01 cfg w mt' sim' idx tr = (Inr (), tr)" if "\<not> plotModel cfg"
    using that by (rule plot_results_p01_off)
next
  assume a: "buildModel cfg \<and> py_index parameters_p01 idx = Inr (key, p)"
  then have i: "py_index parameters_p01 idx = Inr (key, p)"
    by (rule conjunct2)
  from a obtain b where
    b: "build_model_p01 cfg key (dispersivity p) (retardation p) (decay p) 0 = Inr (Some b)"
    using build_model_p01_Some_iff [of cfg key "dispersivity p" "retardation p" "decay p" 0]
    by blast
  obtain mf mt sim where "b = (mf, mt, sim)"
    by (cases b) auto
  with b have
    b': "build_model_p01 cfg key (dispersivity p) (retardation p) (decay p) 0
           = Inr (Some (mf, mt, sim))"
    by simp
  obtain ok tr' where
    ran: "run_model_p01 cfg w mf mt sim (write_model_p01 cfg mf mt sim tr) = (ok, tr')"
    by (cases "run_model_p01 cfg w mf mt sim (write_model_p01 cfg mf mt sim tr)")
  from scenario_p01_events [OF i b', of w tr]
  obtain new where new:
    "snd (scenario_p01 cfg w idx tr) = tr @ new \<and>
     ((\<exists>e \<in> set new. is_write e) \<longleftrightarrow> writeModel cfg) \<and>
     ((\<exists>e \<in> set new. is_run e) \<longleftrightarrow> runModel cfg) \<and>
     ((\<exists>e \<in> set new. is_plot_event e) \<longleftrightarrow>
        plotModel cfg \<and> ok \<and>
        (\<exists>c. ucn_mt3d w tr' (mt_model_ws mt @ [''MT3D001.UCN'']) = Inr c) \<and>
        (\<exists>c. ucn_mf6 w tr' sim = Inr c))"
    unfolding ran fst_conv snd_conv ..
  have unread: "\<forall>e. plotModel cfg \<and> ok \<and>
              (ucn_mt3d w tr' (mt_model_ws mt @ [''MT3D001.UCN'']) = Inl e \<or>
               (\<exists>c. ucn_mt3d w tr' (mt_model_ws mt @ [''MT3D001.UCN'']) = Inr c) \<and>
               ucn_mf6 w tr' sim = Inl e) \<longrightarrow>
              scenario_p01 cfg w idx tr = (Inl e, tr')"
  proof (intro allI impI, elim conjE)
    fix e
    assume "plotModel cfg" and "ok"
      and "ucn_mt3d w tr' (mt_model_ws mt @ [''MT3D001.UCN'']) = Inl e \<or>
               (\<exists>c. ucn_mt3d w tr' (mt_model_ws mt @ [''MT3D001.UCN'']) = Inr c) \<and>
               ucn_mf6 w tr' sim = Inl e"
    with ran show "scenario_p01 cfg w idx tr = (Inl e, tr')"
      by (intro scenario_p01_unread [OF i b']) simp_all
  qed
  show "\<exists>mf mt sim new ok tr'.
         build_model_p01 cfg key (dispersivity p) (retardation p) (decay p) 0
           = Inr (Some (mf, mt, sim)) \<and>
         run_model_p01 cfg w mf mt sim (write_model_p01 cfg mf mt sim tr) = (ok, tr') \<and>
         snd (scenario_p01 cfg w idx tr) = tr @ new \<and>
         ((\<exists>e \<in> set new. is_write e) \<longleftrightarrow> writeModel cfg) \<and>
         ((\<exists>e \<in> set new. is_run e) \<longleftrightarrow> runModel cfg) \<and>
         ((\<exists>e \<in> set new. is_plot_event e) \<longleftrightarrow>
            plotModel cfg \<and> ok \<and>
            (\<exists>c. ucn_mt3d w tr' (mt_model_ws mt @ [''MT3D001.UCN'']) = Inr c) \<and>
            (\<exists>c. ucn_mf6 w tr' sim = Inr c)) \<and>
         (\<forall>e. plotModel cfg \<and> ok \<and>
              (ucn_mt3d w tr' (mt_model_ws mt @ [''MT3D001.UCN'']) = Inl e \<or>
               (\<exists>c. ucn_mt3d w tr' (mt_model_ws mt @ [''MT3D001.UCN'']) = Inr c) \<and>
               ucn_mf6 w tr' sim = Inl e) \<longrightarrow>
              scenario_p01 cfg w idx tr = (Inl e, tr'))"
    using b' ran new unread
    by (intro exI [of _ mf] exI [of _ mt] exI [of _ sim] exI [of _ new] exI [of _ ok]
        exI [of _ tr']) (simp only: simp_thms)
qed

theorem phases_gated_p01_counterexample:
  "plotModel config_all_on \<and>
   fst (scenario_p01 config_all_on world_mf6_fails_p01 0 []) = Inr () \<and>
   filter is_plot_event (snd (scenario_p01 config_all_on world_mf6_fails_p01 0 [])) = [] \<and>
   writeModel (config_all_on\<lparr>buildModel := False\<rparr>) \<and>
   runModel (config_all_on\<lparr>buildModel := False\<rparr>) \<and>
   plotModel (config_all_on\<lparr>buildModel := False\<rparr>) \<and>
   scenario_p01 (config_all_on\<lparr>buildModel := False\<rparr>) world_ok_p01 0 [] = (Inl TypeError, [])"
proof -
  have on: "buildModel config_all_on" "runModel config_all_on"
    by (simp_all add: config_all_on_def)
  obtain mf mt sim where
    b: "build_model_p01 config_all_on ''ex-gwt-mt3dms-p01a''
          (dispersivity \<lparr>dispersivity = 0, retardation = 1, decay = 0\<rparr>)
          (retardation \<lparr>dispersivity = 0, retardation = 1, decay = 0\<rparr>)
          (decay \<lparr>dispersivity = 0, retardation = 1, decay = 0\<rparr>) 0 = Inr (Some (mf, mt, sim))"
    by (simp add: build_model_p01_on [OF on(1)] advection_scheme_p01_cases)
  have failed: "scenario_p01 config_all_on world_mf6_fails_p01 0 [] =
      (Inr (), write_model_p01 config_all_on mf mt sim []
                 @ [Run (Mf2005 mf), Run (Mt3d mt), Run (Mf6 sim), Print ''mf6 failed''])"
    by (simp add: scenario_p01_built [OF py_index_parameters_p01_0 b] run_model_p01_trace on
        Let_def world_mf6_fails_p01_def)
  have off: "scenario_p01 (config_all_on\<lparr>buildModel := False\<rparr>) world_ok_p01 0 []
               = (Inl TypeError, [])"
    by (simp add: scenario_p01_def py_index_parameters_p01_0 build_model_p01_off)
  show ?thesis
    by (simp add: failed off write_model_p01_trace) (simp add: config_all_on_def)
qed

theorem phases_gated_p01_witness:
  "(\<exists>e \<in> set (snd (scenario_p01 config_all_on world_ok_p01 0 [])). is_write e) \<and>
   (\<exists>e \<in> set (snd (scenario_p01 config_all_on world_ok_p01 0 [])). is_run e) \<and>
   (\<exists>e \<in> set (snd (scenario_p01 config_all_on world_ok_p01 0 [])). is_plot_event e) \<and>
   fst (scenario_p01 (config_all_on\<lparr>runModel := False\<rparr>) world_no_output_p01 0 [])
     = Inl FileNotFoundError \<and>
   filter is_plot_event
     (snd (scenario_p01 (config_all_on\<lparr>runModel := False\<rparr>) world_no_output_p01 0 [])) = []"
proof -
  let ?off = "config_all_on\<lparr>runModel := False\<rparr>"
  let ?p = "\<lparr>dispersivity = 0, retardation = 1, decay = 0\<rparr>"
  have on: "writeModel config_all_on" "runModel config_all_on" "plotModel config_all_on"
    and off: "\<not> runModel ?off" "plotModel ?off"
    by (simp_all add: config_all_on_def)
  have a1: "buildModel config_all_on \<and>
      py_index parameters_p01 0 = Inr (''ex-gwt-mt3dms-p01a'', ?p)"
    and a2: "buildModel ?off \<and> py_index parameters_p01 0 = Inr (''ex-gwt-mt3dms-p01a'', ?p)"
    by (simp_all add: config_all_on_def py_index_parameters_p01_0)
  have ok: "fst (run_model_p01 config_all_on world_ok_p01 mf mt sim tr)" for mf mt sim tr
    by (simp add: run_model_p01_trace Let_def world_ok_p01_def)
  have rd: "\<exists>c. ucn_mt3d world_ok_p01 tr p = Inr c" "\<exists>c. ucn_mf6 world_ok_p01 tr s = Inr c"
    for tr p s
    by (simp_all add: world_ok_p01_def)
  have nf: "ucn_mt3d world_no_output_p01 tr p = Inl FileNotFoundError" for tr p
    by (simp add: world_no_output_p01_def)
  from phases_gated_p01 [of config_all_on "''ex-gwt-mt3dms-p01a''" 0 1 0 0 _ _ _ "[]"
      world_ok_p01 0 "''ex-gwt-mt3dms-p01a''" ?p,
      THEN conjunct2, THEN conjunct2, THEN conjunct2, THEN conjunct2, THEN mp, OF a1]
  obtain mf mt sim new ran tr' where body1:
    "build_model_p01 config_all_on ''ex-gwt-mt3dms-p01a'' (dispersivity ?p) (retardation ?p)
       (decay ?p) 0 = Inr (Some (mf, mt, sim)) \<and>
     run_model_p01 config_all_on world_ok_p01 mf mt sim
       (write_model_p01 config_all_on mf mt sim []) = (ran, tr') \<and>
     snd (scenario_p01 config_all_on world_ok_p01 0 []) = [] @ new \<and>
     ((\<exists>e \<in> set new. is_write e) \<longleftrightarrow> writeModel config_all_on) \<and>
     ((\<exists>e \<in> set new. is_run e) \<longleftrightarrow> runModel config_all_on) \<and>
     ((\<exists>e \<in> set new. is_plot_event e) \<longleftrightarrow>
        plotModel config_all_on \<and> ran \<and>
        (\<exists>c. ucn_mt3d world_ok_p01 tr' (mt_model_ws mt @ [''MT3D001.UCN'']) = Inr c) \<and>
        (\<exists>c. ucn_mf6 world_ok_p01 tr' sim = Inr c)) \<and>
     (\<forall>e. plotModel config_all_on \<and> ran \<and>
          (ucn_mt3d world_ok_p01 tr' (mt_model_ws mt @ [''MT3D001.UCN'']) = Inl e \<or>
           (\<exists>c. ucn_mt3d world_ok_p01 tr' (mt_model_ws mt @ [''MT3D001.UCN'']) = Inr c) \<and>
           ucn_mf6 world_ok_p01 tr' sim = Inl e) \<longrightarrow>
          scenario_p01 config_all_on world_ok_p01 0 [] = (Inl e, tr'))"
    by (elim exE) (rule that)
  from body1 have r1: "run_model_p01 config_all_on world_ok_p01 mf mt sim
       (write_model_p01 config_all_on mf mt sim []) = (ran, tr')"
    by (rule conjunct1 [OF conjunct2])
  with ok [of mf mt sim "write_model_p01 config_all_on mf mt sim []"] have ran: "ran"
    by simp
  from body1 have n1: "snd (scenario_p01 config_all_on world_ok_p01 0 []) = new"
    by (simp only: append_Nil)
  from body1 on have e1: "\<exists>e \<in> set new. is_write e"
    by (simp only: simp_thms)
  from body1 on have e2: "\<exists>e \<in> set new. is_run e"
    by (simp only: simp_thms)
  from body1 on ran rd have e3: "\<exists>e \<in> set new. is_plot_event e"
    by (simp only: simp_thms)
  from phases_gated_p01 [of ?off "''ex-gwt-mt3dms-p01a''" 0 1 0 0 _ _ _ "[]"
      world_no_output_p01 0 "''ex-gwt-mt3dms-p01a''" ?p,
      THEN conjunct2, THEN conjunct2, THEN conjunct2, THEN conjunct2, THEN mp, OF a2]
  obtain mf2 mt2 sim2 new2 ran2 tr2 where body2:
    "build_model_p01 ?off ''ex-gwt-mt3dms-p01a'' (dispersivity ?p) (retardation ?p)
       (decay ?p) 0 = Inr (Some (mf2, mt2, sim2)) \<and>
     run_model_p01 ?off world_no_output_p01 mf2 mt2 sim2
       (write_model_p01 ?off mf2 mt2 sim2 []) = (ran2, tr2) \<and>
     snd (scenario_p01 ?off world_no_output_p01 0 []) = [] @ new2 \<and>
     ((\<exists>e \<in> set new2. is_write e) \<longleftrightarrow> writeModel ?off) \<and>
     ((\<exists>e \<in> set new2. is_run e) \<longleftrightarrow> runModel ?off) \<and>
     ((\<exists>e \<in> set new2. is_plot_event e) \<longleftrightarrow>
        plotModel ?off \<and> ran2 \<and>
        (\<exists>c. ucn_mt3d world_no_output_p01 tr2 (mt_model_ws mt2 @ [''MT3D001.UCN'']) = Inr c) \<and>
        (\<exists>c. ucn_mf6 world_no_output_p01 tr2 sim2 = Inr c)) \<and>
     (\<forall>e. plotModel ?off \<and> ran2 \<and>
          (ucn_mt3d world_no_output_p01 tr2 (mt_model_ws mt2 @ [''MT3D001.UCN'']) = Inl e \<or>
           (\<exists>c. ucn_mt3d world_no_output_p01 tr2 (mt_model_ws mt2 @ [''MT3D001.UCN''])
                  = Inr c) \<and>
           ucn_mf6 world_no_output_p01 tr2 sim2 = Inl e) \<longrightarrow>
          scenario_p01 ?off world_no_output_p01 0 [] = (Inl e, tr2))"
    by (elim exE) (rule that)
  from body2 have r2: "run_model_p01 ?off world_no_output_p01 mf2 mt2 sim2
       (write_model_p01 ?off mf2 mt2 sim2 []) = (ran2, tr2)"
    by (rule conjunct1 [OF conjunct2])
  with off(1) have ran2: "ran2" and tr2: "tr2 = write_model_p01 ?off mf2 mt2 sim2 []"
    by (simp_all add: run_model_p01_def)
  from body2 have "plotModel ?off \<and> ran2 \<and>
          (ucn_mt3d world_no_output_p01 tr2 (mt_model_ws mt2 @ [''MT3D001.UCN''])
             = Inl FileNotFoundError \<or>
           (\<exists>c. ucn_mt3d world_no_output_p01 tr2 (mt_model_ws mt2 @ [''MT3D001.UCN''])
                  = Inr c) \<and>
           ucn_mf6 world_no_output_p01 tr2 sim2 = Inl FileNotFoundError) \<longrightarrow>
          scenario_p01 ?off world_no_output_p01 0 [] = (Inl FileNotFoundError, tr2)"
    by (elim conjE) (erule allE)
  with off(2) ran2 nf
  have "scenario_p01 ?off world_no_output_p01 0 [] = (Inl FileNotFoundError, tr2)"
    by (simp only: simp_thms)
  then have second:
    "fst (scenario_p01 ?off world_no_output_p01 0 []) = Inl FileNotFoundError"
    "filter is_plot_event (snd (scenario_p01 ?off world_no_output_p01 0 [])) = []"
    by (simp_all add: tr2 write_model_p01_trace)
  from e1 e2 e3 second show ?thesis
    by (simp only: n1 simp_thms)
qed

section \<open>Plotting\<close>








lemma stride_map: "stride k (map f xs) = map f (stride k xs)"
  by (induction k xs rule: stride.induct) (simp_all add: drop_map)










end
